theory Spec2Isabelle
  imports Complex_Main
begin

section \<open>Symmetric matrix in coordinate form (linear\_algebra/COOSymmetricMatrix.cpp)\<close>

text \<open>
  The class stores three parallel arrays (values, row indices, column indices) and the
  counter \<open>number_nonzeros\<close> inherited from \<open>SymmetricMatrix\<close>, next to the
  \<open>dimension\<close>. A C++ \<open>double\<close> is modelled by a real number and a \<open>size_t\<close> by a
  natural number (no array of the program can hold enough entries for the counter to wrap).
\<close>

record COOSymmetricMatrix =
  dimension :: nat
  number_nonzeros :: nat
  matrix :: "real list"
  row_indices :: "nat list"
  column_indices :: "nat list"

text \<open>\<open>COOSymmetricMatrix::for_each\<close> visits the stored triples \<open>k = 0, ..., number_nonzeros - 1\<close>
  in storage order; \<open>entries\<close> is that sequence and \<open>for_each\<close> threads the state that the
  C++ closure captures by reference.\<close>

definition entries :: "COOSymmetricMatrix \<Rightarrow> (nat \<times> nat \<times> real) list" where
  "entries m = map (\<lambda>k. (row_indices m ! k, column_indices m ! k, matrix m ! k))
                   [0 ..< number_nonzeros m]"

definition for_each :: "COOSymmetricMatrix \<Rightarrow> (nat \<Rightarrow> nat \<Rightarrow> real \<Rightarrow> 's \<Rightarrow> 's) \<Rightarrow> 's \<Rightarrow> 's" where
  "for_each m f s = fold (\<lambda>(i, j, entry). f i j entry) (entries m) s"

text \<open>\<open>COOSymmetricMatrix::find\<close>: the position of the first stored triple with the given
  coordinates, or \<open>number_nonzeros\<close> when there is none.\<close>

function find_from :: "COOSymmetricMatrix \<Rightarrow> nat \<Rightarrow> nat \<Rightarrow> nat \<Rightarrow> nat" where
  "find_from m row_index column_index position =
     (if position < number_nonzeros m then
        (if row_indices m ! position = row_index \<and> column_indices m ! position = column_index
         then position
         else find_from m row_index column_index (position + 1))
      else position)"
  by pat_completeness auto
termination
  by (relation "measure (\<lambda>(m, r, c, position). number_nonzeros m - position)") auto

definition find_coo :: "COOSymmetricMatrix \<Rightarrow> nat \<Rightarrow> nat \<Rightarrow> nat" where
  "find_coo m row_index column_index = find_from m row_index column_index 0"

text \<open>\<open>COOSymmetricMatrix::insert(term, row_index, column_index)\<close>. The branch that would
  modify an existing entry is guarded by \<open>false && ...\<close> in the source.\<close>

definition insert_coo :: "COOSymmetricMatrix \<Rightarrow> real \<Rightarrow> nat \<Rightarrow> nat \<Rightarrow> COOSymmetricMatrix" where
  "insert_coo m trm row_index column_index =
     (let position = find_coo m row_index column_index in
      if False \<and> position < number_nonzeros m then
        m\<lparr>matrix := (matrix m)[position := matrix m ! position + trm]\<rparr>
      else
        m\<lparr>matrix := matrix m @ [trm],
          row_indices := row_indices m @ [row_index],
          column_indices := column_indices m @ [column_index],
          number_nonzeros := number_nonzeros m + 1\<rparr>)"

text \<open>\<open>COOSymmetricMatrix::add_identity_multiple\<close>: one \<open>insert\<close> per diagonal index.\<close>

definition add_identity_multiple :: "COOSymmetricMatrix \<Rightarrow> real \<Rightarrow> COOSymmetricMatrix" where
  "add_identity_multiple m multiple =
     fold (\<lambda>i m'. insert_coo m' multiple i i) [0 ..< dimension m] m"

text \<open>\<open>COOSymmetricMatrix::smallest_diagonal_entry\<close>. The running minimum starts at
  \<open>std::numeric_limits<double>::infinity()\<close>, which is no real number: the accumulator is an
  \<open>option\<close> whose \<open>None\<close> stands for that initial infinity. \<open>min_entry\<close> is \<open>std::min\<close> on it
  (\<open>std::min(a, b)\<close> is \<open>b\<close> when \<open>b < a\<close> and \<open>a\<close> otherwise).\<close>

fun min_entry :: "real option \<Rightarrow> real \<Rightarrow> real option" where
  "min_entry None entry = Some entry"
| "min_entry (Some smallest_entry) entry =
     Some (if entry < smallest_entry then entry else smallest_entry)"

definition smallest_diagonal_entry :: "COOSymmetricMatrix \<Rightarrow> real" where
  "smallest_diagonal_entry m =
     (let smallest_entry =
            for_each m (\<lambda>i j entry smallest_entry.
                          if i = j then min_entry smallest_entry entry else smallest_entry) None
      in case smallest_entry of None \<Rightarrow> 0 | Some v \<Rightarrow> v)"

text \<open>The values stored on the diagonal, in storage order.\<close>

definition diagonal_values :: "COOSymmetricMatrix \<Rightarrow> real list" where
  "diagonal_values m = map (\<lambda>(i, j, entry). entry) (filter (\<lambda>(i, j, entry). i = j) (entries m))"

text \<open>The class invariant: the three arrays hold exactly \<open>number_nonzeros\<close> elements.\<close>

definition well_formed :: "COOSymmetricMatrix \<Rightarrow> bool" where
  "well_formed m \<longleftrightarrow> length (matrix m) = number_nonzeros m
                    \<and> length (row_indices m) = number_nonzeros m
                    \<and> length (column_indices m) = number_nonzeros m"


section \<open>Errors\<close>

text \<open>The failures of the C++ code are values: a failed \<open>assert\<close> (with the asserted
  condition or its message), the \<open>NumericalError\<close> exception that collaborators throw, and a
  \<open>std::runtime_error\<close> with its message.\<close>

datatype error = AssertionFailed string | NumericalError | RuntimeError string

section \<open>Sparse vectors (linear\_algebra/SparseVector.hpp)\<close>

text \<open>Two parallel arrays in insertion order and a counter (the field \<open>number_nonzeros\<close> of
  the source, here \<open>sv_number_nonzeros\<close> since the matrix record uses that name).\<close>

record 'a SparseVector =
  indices :: "nat list"
  values_sv :: "'a list"
  sv_number_nonzeros :: nat

definition for_each_sv :: "'a SparseVector \<Rightarrow> (nat \<times> 'a) list" where
  "for_each_sv v = map (\<lambda>k. (indices v ! k, values_sv v ! k)) [0 ..< sv_number_nonzeros v]"

definition for_each_value :: "'a SparseVector \<Rightarrow> 'a list" where
  "for_each_value v = map (\<lambda>k. values_sv v ! k) [0 ..< sv_number_nonzeros v]"

text \<open>\<open>dot(x, y)\<close> of a dense and a sparse vector. Every stored pair contributes (duplicate
  indices are summed); the assertion \<open>index < x.size()\<close> is a branch of the model.\<close>

fun dot_loop :: "real list \<Rightarrow> (nat \<times> real) list \<Rightarrow> real \<Rightarrow> error + real" where
  "dot_loop x [] dot_product = Inr dot_product"
| "dot_loop x ((index, y_element) # ys) dot_product =
     (if index < length x then dot_loop x ys (dot_product + x ! index * y_element)
      else Inl (AssertionFailed ''Vector.dot: the sparse vector y is larger than the dense vector x''))"

definition dot :: "real list \<Rightarrow> real SparseVector \<Rightarrow> error + real" where
  "dot x y = dot_loop x (for_each_sv y) 0"

section \<open>Directions, iterates and the problem\<close>

text \<open>The values of the status of a direction that the modelled code names.\<close>

datatype Status = OPTIMAL | UNBOUNDED_PROBLEM | INFEASIBLE

record Multipliers =
  lower_bounds :: "real list"
  upper_bounds :: "real list"
  constraints_multipliers :: "real list"

record ConstraintPartition =
  feasible :: "nat list"
  lower_bound_infeasible :: "nat list"
  upper_bound_infeasible :: "nat list"
  infeasible :: "nat list"

text \<open>The fields of \<open>Direction\<close> that the modelled code reads or writes. \<open>dir_x\<close> and
  \<open>dir_norm\<close> are \<open>direction.x\<close> and \<open>direction.norm\<close>; \<open>at_lower_bound\<close> and
  \<open>at_upper_bound\<close> are \<open>direction.active_set.bounds.at_lower_bound\<close> and
  \<open>.at_upper_bound\<close>.\<close>

record Direction =
  dir_x :: "real list"
  multipliers :: Multipliers
  at_lower_bound :: "nat list"
  at_upper_bound :: "nat list"
  objective :: real
  status :: Status
  dir_norm :: real
  objective_multiplier :: real
  constraint_partition :: "ConstraintPartition option"

record ProgressMeasures =
  feasibility :: real
  objective_measure :: real

text \<open>The fields of \<open>Iterate\<close> that the modelled code reads or writes: \<open>it_x\<close> is
  \<open>iterate.x\<close>, \<open>it_multipliers\<close> is \<open>iterate.multipliers\<close> and \<open>errors_constraints\<close> is
  \<open>iterate.errors.constraints\<close>.\<close>

record Iterate =
  it_x :: "real list"
  it_multipliers :: Multipliers
  constraints :: "real list"
  constraints_jacobian :: "real SparseVector list"
  lagrangian_gradient :: "real list"
  errors_constraints :: real
  progress :: ProgressMeasures

text \<open>Of the problem, the constraint-relaxation code uses the number of constraints and
  \<open>problem.compute_constraint_violation(scaling, value, j)\<close>, which is not among the
  sources: it is a parameter of the model.\<close>

record Problem =
  number_constraints :: nat
  compute_constraint_violation :: "real \<Rightarrow> nat \<Rightarrow> real"

record Range =
  lb :: real
  ub :: real

text \<open>Modelled from the spec: \<open>compute_constraint_violation\<close> is missing from the sources. The
  spec gives the violation of a constraint value \<open>c\<close> against its bounds as
  \<open>max(0, c_L - c, c - c_U)\<close>.\<close>

definition bounds_violation :: "Range list \<Rightarrow> real \<Rightarrow> nat \<Rightarrow> real" where
  "bounds_violation constraint_bounds c j =
     max 0 (max (lb (constraint_bounds ! j) - c) (c - ub (constraint_bounds ! j)))"

text \<open>Modelled from the spec: \<open>norm_1(f, n)\<close> on a function is missing from the sources. It is the
  \<open>\<ell>\<^sub>1\<close> norm of \<open>f(0), ..., f(n - 1)\<close>, accumulated in index order, and it stops at
  the first evaluation of \<open>f\<close> that fails.\<close>

fun norm_1_loop :: "(nat \<Rightarrow> error + real) \<Rightarrow> nat list \<Rightarrow> real \<Rightarrow> error + real" where
  "norm_1_loop f [] acc = Inr acc"
| "norm_1_loop f (j # js) acc =
     (case f j of Inl e \<Rightarrow> Inl e | Inr v \<Rightarrow> norm_1_loop f js (acc + \<bar>v\<bar>))"

definition norm_1 :: "(nat \<Rightarrow> error + real) \<Rightarrow> nat \<Rightarrow> error + real" where
  "norm_1 f n = norm_1_loop f [0 ..< n] 0"

text \<open>Modelled from the spec: \<open>norm_1(x)\<close> on a dense vector is declared in the sources and
  its body is missing. It is the \<open>\<ell>\<^sub>1\<close> norm, the sum of the absolute values of the
  components.\<close>

definition norm_1_vector :: "real list \<Rightarrow> real" where
  "norm_1_vector x = (\<Sum>v\<leftarrow>x. \<bar>v\<bar>)"

section \<open>\<open>\<ell>\<^sub>1\<close> relaxation (ingredients/constraint\_relaxation/l1Relaxation.cpp)\<close>

record l1RelaxationParameters =
  decrease_factor :: real
  epsilon1 :: real
  epsilon2 :: real

record ElasticVariables =
  positive :: "nat SparseVector"
  negative :: "nat SparseVector"

text \<open>The state of an \<open>l1Relaxation\<close> object. The globalization strategy and the subproblem are
  abstract classes of the program: their states are the type parameters \<open>'g\<close> and \<open>'p\<close>, and
  their methods are the fields of \<open>l1_collaborators\<close> below.
  \<open>subproblem_definition_changed\<close> is the flag of that name of the subproblem.
  \<open>penalty_updates\<close> is instrumentation, absent from the source: the values assigned to
  \<open>penalty_parameter\<close>, oldest first.\<close>

record ('g, 'p) l1Relaxation =
  globalization_strategy :: 'g
  subproblem :: 'p
  subproblem_definition_changed :: bool
  penalty_parameter :: real
  parameters :: l1RelaxationParameters
  penalty_threshold :: real
  elastic_variables :: ElasticVariables
  penalty_updates :: "real list"

type_synonym Statistics = "(string \<times> real) list"

definition add_statistic :: "string \<Rightarrow> real \<Rightarrow> Statistics \<Rightarrow> Statistics" where
  "add_statistic name v statistics = statistics @ [(name, v)]"

text \<open>The methods of the collaborators that \<open>l1Relaxation\<close> calls; none of them is among the
  sources. The problem and the scaling are fixed and left implicit in them.
  \<open>strategy_reset\<close> and \<open>check_acceptance\<close> are the methods of the globalization strategy;
  \<open>subproblem_solve\<close> is \<open>subproblem->solve\<close>; \<open>compute_complementarity_error\<close> is
  \<open>Subproblem::compute_complementarity_error\<close> and \<open>evaluate_lagrangian_gradient\<close> is the
  method of that name of the iterate, which stores its result in the iterate. The methods of
  the subproblem that receive the iterate by reference return it.\<close>

record ('g, 'p) l1_collaborators =
  strategy_reset :: "'g \<Rightarrow> 'g"
  check_acceptance :: "ProgressMeasures \<Rightarrow> ProgressMeasures \<Rightarrow> real \<Rightarrow> real \<Rightarrow> 'g \<Rightarrow> bool \<times> 'g"
  subproblem_solve :: "Iterate \<Rightarrow> 'p \<Rightarrow> Direction \<times> 'p \<times> Iterate"
  build_objective_model :: "Iterate \<Rightarrow> real \<Rightarrow> 'p \<Rightarrow> 'p \<times> Iterate"
  add_elastic_variables_to_subproblem :: "'p \<Rightarrow> 'p"
  remove_elastic_variables_from_subproblem :: "'p \<Rightarrow> 'p"
  compute_progress_measures :: "Iterate \<Rightarrow> 'p \<Rightarrow> Iterate"
  compute_optimality_conditions :: "Iterate \<Rightarrow> real \<Rightarrow> Iterate"
  compute_complementarity_error :: "Iterate \<Rightarrow> Multipliers \<Rightarrow> real"
  evaluate_lagrangian_gradient :: "Iterate \<Rightarrow> real \<Rightarrow> Multipliers \<Rightarrow> Iterate"

definition set_penalty_parameter :: "real \<Rightarrow> ('g, 'p) l1Relaxation \<Rightarrow> ('g, 'p) l1Relaxation" where
  "set_penalty_parameter v s = s\<lparr>penalty_parameter := v, penalty_updates := penalty_updates s @ [v]\<rparr>"

text \<open>\<open>l1Relaxation::compute_predicted_reduction\<close>. The predicted-reduction model of the
  subproblem is its \<open>evaluate\<close> function.\<close>

definition linearized_constraint_violation ::
  "Problem \<Rightarrow> Iterate \<Rightarrow> Direction \<Rightarrow> real \<Rightarrow> error + real" where
  "linearized_constraint_violation problem current_iterate direction step_length =
     (let residual_function = (\<lambda>j.
            case dot (dir_x direction) (constraints_jacobian current_iterate ! j) of
              Inl e \<Rightarrow> Inl e
            | Inr d \<Rightarrow>
                (let component_j = constraints current_iterate ! j + step_length * d
                 in Inr (compute_constraint_violation problem component_j j)))
      in norm_1 residual_function (number_constraints problem))"

definition compute_predicted_reduction ::
  "Problem \<Rightarrow> Iterate \<Rightarrow> Direction \<Rightarrow> (real \<Rightarrow> real) \<Rightarrow> real \<Rightarrow> error + real" where
  "compute_predicted_reduction problem current_iterate direction evaluate step_length =
     (if step_length = 1 then
        Inr (errors_constraints current_iterate + evaluate step_length)
      else
        (case linearized_constraint_violation problem current_iterate direction step_length of
           Inl e \<Rightarrow> Inl e
         | Inr linearized_violation \<Rightarrow>
             Inr (errors_constraints current_iterate - linearized_violation + evaluate step_length)))"

text \<open>\<open>l1Relaxation::is_acceptable\<close>. The result is the value returned together with every
  object the C++ method may have modified: the strategy itself, both iterates and the
  statistics.\<close>

definition l1_is_acceptable ::
  "('g, 'p) l1_collaborators \<Rightarrow> Problem \<Rightarrow> ('g, 'p) l1Relaxation \<Rightarrow> Statistics \<Rightarrow> Iterate \<Rightarrow> Iterate
     \<Rightarrow> Direction \<Rightarrow> (real \<Rightarrow> real) \<Rightarrow> real
     \<Rightarrow> error + (bool \<times> ('g, 'p) l1Relaxation \<times> Statistics \<times> Iterate \<times> Iterate)" where
  "l1_is_acceptable C problem s statistics current_iterate trial_iterate direction evaluate step_length =
     (let (s, current_iterate) =
            (if subproblem_definition_changed s then
               (s\<lparr>globalization_strategy := strategy_reset C (globalization_strategy s),
                  subproblem_definition_changed := False\<rparr>,
                compute_progress_measures C current_iterate (subproblem s))
             else (s, current_iterate));
          checked =
            (if dir_norm direction = 0 then Inr (True, s, trial_iterate)
             else
               (let trial_iterate = compute_progress_measures C trial_iterate (subproblem s) in
                case compute_predicted_reduction problem current_iterate direction evaluate step_length of
                  Inl e \<Rightarrow> Inl e
                | Inr predicted_reduction \<Rightarrow>
                    (let (accept, g) = check_acceptance C (progress current_iterate) (progress trial_iterate)
                                         (penalty_parameter s) predicted_reduction (globalization_strategy s)
                     in Inr (accept, s\<lparr>globalization_strategy := g\<rparr>, trial_iterate))))
      in case checked of
           Inl e \<Rightarrow> Inl e
         | Inr (accept, s, trial_iterate) \<Rightarrow>
             (if accept then
                Inr (accept, s, add_statistic ''penalty param.'' (penalty_parameter s) statistics,
                     current_iterate,
                     compute_optimality_conditions C trial_iterate (objective_multiplier direction))
              else Inr (accept, s, statistics, current_iterate, trial_iterate)))"

text \<open>\<open>l1Relaxation::solve_subproblem\<close> and \<open>l1Relaxation::resolve_subproblem\<close>. Both assert
  that a solution which comes with a constraint partition has no infeasible constraint.\<close>

definition assert_no_infeasible_constraint :: "string \<Rightarrow> Direction \<Rightarrow> error + unit" where
  "assert_no_infeasible_constraint message direction =
     (case constraint_partition direction of
        None \<Rightarrow> Inr ()
      | Some constraint_partition' \<Rightarrow>
          (if infeasible constraint_partition' = [] then Inr ()
           else Inl (AssertionFailed message)))"

definition solve_subproblem ::
  "('g, 'p) l1_collaborators \<Rightarrow> ('g, 'p) l1Relaxation \<Rightarrow> Iterate
     \<Rightarrow> error + Direction \<times> ('g, 'p) l1Relaxation \<times> Iterate" where
  "solve_subproblem C s current_iterate =
     (let (direction, p, current_iterate) = subproblem_solve C current_iterate (subproblem s) in
      case assert_no_infeasible_constraint
             ''solve_subproblem: infeasible constraints found, although direction is feasible''
             direction of
        Inl e \<Rightarrow> Inl e
      | Inr _ \<Rightarrow>
          Inr (direction\<lparr>objective_multiplier := penalty_parameter s\<rparr>,
               s\<lparr>subproblem := remove_elastic_variables_from_subproblem C p\<rparr>,
               current_iterate))"

definition resolve_subproblem ::
  "('g, 'p) l1_collaborators \<Rightarrow> ('g, 'p) l1Relaxation \<Rightarrow> Iterate \<Rightarrow> real
     \<Rightarrow> error + Direction \<times> ('g, 'p) l1Relaxation \<times> Iterate" where
  "resolve_subproblem C s current_iterate objective_multiplier' =
     (let (p, current_iterate) =
            build_objective_model C current_iterate objective_multiplier' (subproblem s);
          p = add_elastic_variables_to_subproblem C p;
          (direction, p, current_iterate) = subproblem_solve C current_iterate p
      in case assert_no_infeasible_constraint
                ''resolve_subproblem: infeasible constraints found, although direction is feasible''
                direction of
           Inl e \<Rightarrow> Inl e
         | Inr _ \<Rightarrow>
             Inr (direction\<lparr>objective_multiplier := objective_multiplier'\<rparr>,
                  s\<lparr>subproblem := remove_elastic_variables_from_subproblem C p\<rparr>,
                  current_iterate))"

text \<open>\<open>l1Relaxation::compute_linearized_constraint_residual\<close>: the sum of the elastic
  variables of the direction, positive ones first.\<close>

definition compute_linearized_constraint_residual :: "ElasticVariables \<Rightarrow> real list \<Rightarrow> real" where
  "compute_linearized_constraint_residual elastics direction =
     fold (\<lambda>i residual. residual + direction ! i)
          (for_each_value (positive elastics) @ for_each_value (negative elastics)) 0"

text \<open>\<open>l1Relaxation::compute_error\<close>: the complementarity error plus the \<open>\<ell>\<^sub>1\<close> norm of the
  gradient of the Lagrangian, for the multipliers of the iterate displaced by those of the
  direction. The Lagrangian gradient is stored in the iterate, which the function returns with
  the error. The vectors of multipliers are indexed without a check in the source; both are
  taken to hold an entry for each constraint of the problem.\<close>

definition compute_error ::
  "('g, 'p) l1_collaborators \<Rightarrow> Problem \<Rightarrow> Iterate \<Rightarrow> Multipliers \<Rightarrow> real \<Rightarrow> real \<times> Iterate" where
  "compute_error C problem iterate multipliers_displacements current_penalty_parameter =
     (let multipliers' =
            \<lparr>lower_bounds = lower_bounds multipliers_displacements,
             upper_bounds = upper_bounds multipliers_displacements,
             constraints_multipliers =
               fold (\<lambda>j ms. ms[j := ms ! j + constraints_multipliers (it_multipliers iterate) ! j])
                    [0 ..< number_constraints problem]
                    (constraints_multipliers multipliers_displacements)\<rparr>;
          error' = compute_complementarity_error C iterate multipliers';
          iterate = evaluate_lagrangian_gradient C iterate current_penalty_parameter multipliers'
      in (error' + norm_1_vector (lagrangian_gradient iterate), iterate))"

text \<open>The loop \<open>while (!condition2)\<close> of \<open>solve_with_steering_rule\<close>. Its state is the
  object, the local variables \<open>direction\<close> (here \<open>current_direction\<close>), \<open>linearized_residual\<close>
  and \<open>condition1\<close>, and the current iterate; the lowest-violation direction and its residual
  are constant.\<close>

record ('g, 'p) steering_state =
  relaxation :: "('g, 'p) l1Relaxation"
  current_direction :: Direction
  linearized_residual :: real
  condition1 :: bool

text \<open>Stage d (the value of \<open>condition1\<close> after the block \<open>if (!condition1)\<close>) and stage e (the
  value of \<open>condition2\<close> after the test that follows it).\<close>

definition stage_d :: "Iterate \<Rightarrow> real \<Rightarrow> ('g, 'p) steering_state \<Rightarrow> bool" where
  "stage_d current_iterate residual_lowest_violation st =
     (if \<not> condition1 st then
        (residual_lowest_violation = 0 \<and> linearized_residual st = 0)
        \<or> (residual_lowest_violation \<noteq> 0
            \<and> errors_constraints current_iterate - linearized_residual st
                \<ge> epsilon1 (parameters (relaxation st))
                   * (errors_constraints current_iterate - residual_lowest_violation))
      else True)"

definition stage_e :: "Iterate \<Rightarrow> Direction \<Rightarrow> bool \<Rightarrow> ('g, 'p) steering_state \<Rightarrow> bool" where
  "stage_e current_iterate direction_lowest_violation c1 st =
     (c1 \<and> errors_constraints current_iterate - objective (current_direction st)
             \<ge> epsilon2 (parameters (relaxation st))
                * (errors_constraints current_iterate - objective direction_lowest_violation))"

text \<open>The loop need not terminate, so the function is partial: \<open>None\<close> is a loop that runs
  forever. A failed assertion ends it with \<open>Inl\<close>.\<close>

partial_function (option) steering_loop ::
  "('g, 'p) l1_collaborators \<Rightarrow> Direction \<Rightarrow> real \<Rightarrow> ('g, 'p) steering_state \<Rightarrow> Iterate
     \<Rightarrow> (error + ('g, 'p) steering_state \<times> Iterate) option" where
  "steering_loop C direction_lowest_violation residual_lowest_violation st current_iterate =
     (let c1 = stage_d current_iterate residual_lowest_violation st;
          c2 = stage_e current_iterate direction_lowest_violation c1 st
      in if c2 then Some (Inr (st\<lparr>condition1 := c1\<rparr>, current_iterate))
         else
           (let s = relaxation st;
                s = set_penalty_parameter (penalty_parameter s / decrease_factor (parameters s)) s
            in if penalty_parameter s < penalty_threshold s then
                 Some (Inr (st\<lparr>relaxation := set_penalty_parameter 0 s, condition1 := c1\<rparr>,
                            current_iterate))
               else
                 (case resolve_subproblem C s current_iterate (penalty_parameter s) of
                    Inl e \<Rightarrow> Some (Inl e)
                  | Inr (d, s, current_iterate) \<Rightarrow>
                      steering_loop C direction_lowest_violation residual_lowest_violation
                        (st\<lparr>relaxation := s, current_direction := d, condition1 := c1,
                            linearized_residual :=
                              compute_linearized_constraint_residual (elastic_variables s)
                                (dir_x d)\<rparr>)
                        current_iterate)))"

text \<open>The branch of \<open>solve_with_steering_rule\<close> taken when the lowest violation is not the
  current one: the update of the penalty parameter from the ideal error (stage f), followed by the
  loop.\<close>

definition update_penalty_parameter ::
  "('g, 'p) l1_collaborators \<Rightarrow> Problem \<Rightarrow> Direction \<Rightarrow> real \<Rightarrow> ('g, 'p) steering_state
     \<Rightarrow> Iterate \<Rightarrow> (error + ('g, 'p) steering_state \<times> Iterate) option" where
  "update_penalty_parameter C problem direction_lowest_violation residual_lowest_violation st
       current_iterate =
     (let s = relaxation st;
          (error_lowest_violation, current_iterate) =
            compute_error C problem current_iterate (multipliers direction_lowest_violation) 0
      in if error_lowest_violation = 0 then
           Some (Inr (st\<lparr>relaxation := set_penalty_parameter 0 s,
                         current_direction := direction_lowest_violation\<rparr>, current_iterate))
         else
           (let updated_penalty_parameter = penalty_parameter s;
                trm = error_lowest_violation / max 1 (errors_constraints current_iterate);
                s = set_penalty_parameter (min (penalty_parameter s) (trm * trm)) s;
                resolved =
                  (if penalty_parameter s < updated_penalty_parameter then
                     (if penalty_parameter s = 0 then
                        Inr (direction_lowest_violation, s, current_iterate)
                      else resolve_subproblem C s current_iterate (penalty_parameter s))
                   else Inr (current_direction st, s, current_iterate))
            in case resolved of
                 Inl e \<Rightarrow> Some (Inl e)
               | Inr (d, s, current_iterate) \<Rightarrow>
                   steering_loop C direction_lowest_violation residual_lowest_violation
                     (st\<lparr>relaxation := s, current_direction := d, condition1 := False\<rparr>)
                     current_iterate))"

text \<open>The end of \<open>solve_with_steering_rule\<close>: the globalization strategy is reset when the
  penalty parameter is below its value at entry.\<close>

definition reset_if_decreased ::
  "('g, 'p) l1_collaborators \<Rightarrow> real \<Rightarrow> ('g, 'p) l1Relaxation \<Rightarrow> ('g, 'p) l1Relaxation" where
  "reset_if_decreased C current_penalty_parameter s =
     (if penalty_parameter s < current_penalty_parameter then
        s\<lparr>globalization_strategy := strategy_reset C (globalization_strategy s)\<rparr>
      else s)"

text \<open>\<open>l1Relaxation::solve_with_steering_rule\<close>. The result is the direction returned, the
  object and the current iterate.\<close>

definition solve_with_steering_rule ::
  "('g, 'p) l1_collaborators \<Rightarrow> Problem \<Rightarrow> ('g, 'p) l1Relaxation \<Rightarrow> Iterate
     \<Rightarrow> (error + Direction \<times> ('g, 'p) l1Relaxation \<times> Iterate) option" where
  "solve_with_steering_rule C problem s current_iterate =
     (case solve_subproblem C s current_iterate of
        Inl e \<Rightarrow> Some (Inl e)
      | Inr (d, s, current_iterate) \<Rightarrow>
          (if 0 < penalty_parameter s then
             (let residual = compute_linearized_constraint_residual (elastic_variables s) (dir_x d) in
              if residual \<noteq> 0 then
                (let current_penalty_parameter = penalty_parameter s in
                 case resolve_subproblem C s current_iterate 0 of
                   Inl e \<Rightarrow> Some (Inl e)
                 | Inr (direction_lowest_violation, s, current_iterate) \<Rightarrow>
                     (let residual_lowest_violation =
                            compute_linearized_constraint_residual (elastic_variables s)
                              (dir_x direction_lowest_violation);
                          st = \<lparr>relaxation = s, current_direction = d,
                                linearized_residual = residual, condition1 = False\<rparr>;
                          updated =
                            (if \<not> (0 < errors_constraints current_iterate
                                    \<and> residual_lowest_violation = errors_constraints current_iterate)
                             then update_penalty_parameter C problem direction_lowest_violation
                                    residual_lowest_violation st current_iterate
                             else Some (Inr (st, current_iterate)))
                      in case updated of
                           None \<Rightarrow> None
                         | Some (Inl e) \<Rightarrow> Some (Inl e)
                         | Some (Inr (st, current_iterate)) \<Rightarrow>
                             Some (Inr (current_direction st,
                                        reset_if_decreased C current_penalty_parameter (relaxation st),
                                        current_iterate))))
              else Some (Inr (d, s, current_iterate)))
           else Some (Inr (d, s, current_iterate))))"

section \<open>Inertia correction (ingredients/subproblem/HessianModel.hpp)\<close>

text \<open>The linear solver is an abstract class: its state is the type parameter \<open>'l\<close> and the
  methods that \<open>modify_inertia\<close> calls are the fields of the record.\<close>

record 'l LinearSolver =
  do_symbolic_factorization :: "COOSymmetricMatrix \<Rightarrow> 'l \<Rightarrow> 'l"
  do_numerical_factorization :: "COOSymmetricMatrix \<Rightarrow> 'l \<Rightarrow> 'l"
  matrix_is_singular :: "'l \<Rightarrow> bool"
  number_negative_eigenvalues :: "'l \<Rightarrow> nat"

definition beta :: real where
  "beta = 1 / 10000"

text \<open>The variables of \<open>modify_inertia\<close>: the matrix (the parameter \<open>matrix\<close> of the source,
  here \<open>hessian\<close>), the solver, \<open>inertia\<close> and \<open>previous_inertia\<close>. \<open>tested\<close> is the sequence
  of values that the DEBUG lines "Testing factorization with inertia term" print, oldest
  first.\<close>

record 'l inertia_state =
  hessian :: COOSymmetricMatrix
  linear_solver :: 'l
  inertia :: real
  previous_inertia :: real
  tested :: "real list"

text \<open>The loop \<open>while (!good_inertia)\<close>. It runs forever when the solver never reports a
  nonsingular matrix without negative eigenvalues: the function is partial.\<close>

partial_function (option) inertia_loop ::
  "'l LinearSolver \<Rightarrow> 'l inertia_state \<Rightarrow> 'l inertia_state option" where
  "inertia_loop L st =
     (if \<not> matrix_is_singular L (linear_solver st)
         \<and> number_negative_eigenvalues L (linear_solver st) = 0 then Some st
      else
        (let previous = inertia st;
             new = (if inertia st = 0 then beta else 2 * inertia st);
             H = add_identity_multiple (hessian st) (new - previous)
         in inertia_loop L
              (st\<lparr>hessian := H,
                  linear_solver := do_numerical_factorization L H (linear_solver st),
                  inertia := new, previous_inertia := previous,
                  tested := tested st @ [new]\<rparr>)))"

definition modify_inertia ::
  "'l LinearSolver \<Rightarrow> COOSymmetricMatrix \<Rightarrow> 'l \<Rightarrow> 'l inertia_state option" where
  "modify_inertia L H l =
     (let smallest = smallest_diagonal_entry H;
          previous = 0;
          initial = (if smallest \<le> 0 then beta - smallest else 0);
          H = (if 0 < initial then add_identity_multiple H (initial - previous) else H);
          l = do_symbolic_factorization L H l;
          l = do_numerical_factorization L H l
      in inertia_loop L
           \<lparr>hessian = H, linear_solver = l, inertia = initial, previous_inertia = previous,
            tested = [initial]\<rparr>)"

section \<open>Trust-region mechanism (ingredients/mechanism/TrustRegionStrategy.cpp)\<close>

text \<open>\<open>tr_decrease_factor\<close> is the field \<open>decrease_factor\<close> of the class.\<close>

record TrustRegionStrategy =
  radius :: real
  increase_factor :: real
  tr_decrease_factor :: real
  activity_tolerance :: real
  min_radius :: real
  number_iterations :: nat

text \<open>What surrounds the mechanism (the constraint-relaxation strategy, the current iterate, the
  statistics) is a state of type \<open>'w\<close>; \<open>'it\<close> is the type of iterates and \<open>'m\<close> the type of
  predicted-reduction models. A collaborator that throws returns \<open>Inl\<close> of the exception,
  together with the state it leaves behind.\<close>

record ('w, 'it, 'm) relaxation_strategy =
  create_current_subproblem :: "real \<Rightarrow> 'w \<Rightarrow> (error + unit) \<times> 'w"
  compute_feasible_direction :: "'w \<Rightarrow> (error + Direction) \<times> 'w"
  assemble_trial_iterate :: "'w \<Rightarrow> Direction \<Rightarrow> real \<Rightarrow> 'it"
  generate_predicted_reduction_model :: "Direction \<Rightarrow> 'w \<Rightarrow> 'm"
  is_acceptable :: "'it \<Rightarrow> Direction \<Rightarrow> 'm \<Rightarrow> real \<Rightarrow> 'w \<Rightarrow> (error + bool \<times> 'it) \<times> 'w"
  register_accepted_iterate :: "'it \<Rightarrow> 'w \<Rightarrow> 'w"
  statistics_add :: "string \<Rightarrow> real \<Rightarrow> 'w \<Rightarrow> 'w"

definition termination_tr :: "TrustRegionStrategy \<Rightarrow> bool" where
  "termination_tr s \<longleftrightarrow> radius s < min_radius s"

definition check_unboundedness :: "Direction \<Rightarrow> error + unit" where
  "check_unboundedness direction =
     (if status direction \<noteq> UNBOUNDED_PROBLEM then Inr ()
      else Inl (AssertionFailed ''Trust-region subproblem is unbounded, this should not happen''))"

text \<open>\<open>TrustRegionStrategy::rectify_active_set\<close>: the bounds that are active only because of the
  trust region leave the active set and their multipliers are set to zero. The indices of the
  active set are positions of \<open>direction.x\<close> and of the multipliers.\<close>

definition rectify_active_set :: "Direction \<Rightarrow> real \<Rightarrow> error + Direction" where
  "rectify_active_set direction \<Delta> =
     (if \<not> 0 < \<Delta> then Inl (AssertionFailed ''0 < radius'')
      else
        (let at_trust_region_lower = filter (\<lambda>i. dir_x direction ! i = - \<Delta>) (at_lower_bound direction);
             at_trust_region_upper = filter (\<lambda>i. dir_x direction ! i = \<Delta>) (at_upper_bound direction);
             m = multipliers direction
         in Inr (direction
              \<lparr>at_lower_bound := filter (\<lambda>i. dir_x direction ! i \<noteq> - \<Delta>) (at_lower_bound direction),
               at_upper_bound := filter (\<lambda>i. dir_x direction ! i \<noteq> \<Delta>) (at_upper_bound direction),
               multipliers :=
                 m\<lparr>lower_bounds := fold (\<lambda>i bs. bs[i := 0]) at_trust_region_lower (lower_bounds m),
                   upper_bounds := fold (\<lambda>i bs. bs[i := 0]) at_trust_region_upper (upper_bounds m)\<rparr>\<rparr>)))"

definition add_statistics ::
  "('w, 'it, 'm) relaxation_strategy \<Rightarrow> TrustRegionStrategy \<Rightarrow> Direction \<Rightarrow> 'w \<Rightarrow> 'w" where
  "add_statistics R s direction w =
     statistics_add R ''step norm'' (dir_norm direction)
       (statistics_add R ''TR radius'' (radius s)
          (statistics_add R ''minor'' (real (number_iterations s)) w))"

text \<open>One pass through the body of the loop of \<open>compute_acceptable_iterate\<close>. It either ends
  the call (\<open>Finished\<close>: an accepted trial iterate with the norm of its direction, or an error
  that leaves the function) or asks for another pass (\<open>Retry\<close>).\<close>

datatype 'it pass = Finished "error + 'it \<times> real" | Retry

text \<open>The handler \<open>catch (const NumericalError&)\<close>: that exception shrinks the radius, any
  other one leaves the function.\<close>

definition catch_numerical_error ::
  "error \<Rightarrow> TrustRegionStrategy \<Rightarrow> 'w \<Rightarrow> 'it pass \<times> TrustRegionStrategy \<times> 'w" where
  "catch_numerical_error e s w =
     (if e = NumericalError then (Retry, s\<lparr>radius := radius s / tr_decrease_factor s\<rparr>, w)
      else (Finished (Inl e), s, w))"

definition tr_iteration ::
  "('w, 'it, 'm) relaxation_strategy \<Rightarrow> TrustRegionStrategy \<Rightarrow> 'w
     \<Rightarrow> 'it pass \<times> TrustRegionStrategy \<times> 'w" where
  "tr_iteration R s w =
     (if \<not> 0 < radius s then (Finished (Inl (AssertionFailed ''0 < this->radius'')), s, w)
      else
        (let s = s\<lparr>number_iterations := number_iterations s + 1\<rparr> in
         case create_current_subproblem R (radius s) w of
           (Inl e, w) \<Rightarrow> catch_numerical_error e s w
         | (Inr _, w) \<Rightarrow>
        (case compute_feasible_direction R w of
           (Inl e, w) \<Rightarrow> catch_numerical_error e s w
         | (Inr direction, w) \<Rightarrow>
        (case check_unboundedness direction of
           Inl e \<Rightarrow> (Finished (Inl e), s, w)
         | Inr _ \<Rightarrow>
        (case rectify_active_set direction (radius s) of
           Inl e \<Rightarrow> (Finished (Inl e), s, w)
         | Inr direction \<Rightarrow>
        (let full_step_length = 1;
             trial_iterate = assemble_trial_iterate R w direction full_step_length;
             predicted_reduction_model = generate_predicted_reduction_model R direction w
         in case is_acceptable R trial_iterate direction predicted_reduction_model full_step_length w of
           (Inl e, w) \<Rightarrow> catch_numerical_error e s w
         | (Inr (accept, trial_iterate), w) \<Rightarrow>
             (if accept then
                (let w = add_statistics R s direction w;
                     s = (if dir_norm direction \<ge> radius s - activity_tolerance s
                          then s\<lparr>radius := radius s * increase_factor s\<rparr> else s);
                     w = register_accepted_iterate R trial_iterate w
                 in (Finished (Inr (trial_iterate, dir_norm direction)), s, w))
              else
                (Retry, s\<lparr>radius := min (radius s) (dir_norm direction) / tr_decrease_factor s\<rparr>, w))))))))"

text \<open>The loop \<open>while (!this->termination())\<close> and the two \<open>throw\<close> statements after it. The
  loop need not terminate: the function is partial.\<close>

partial_function (option) tr_loop ::
  "('w, 'it, 'm) relaxation_strategy \<Rightarrow> TrustRegionStrategy \<Rightarrow> 'w
     \<Rightarrow> ((error + 'it \<times> real) \<times> TrustRegionStrategy \<times> 'w) option" where
  "tr_loop R s w =
     (if termination_tr s then
        (if radius s < min_radius s
         then Some (Inl (RuntimeError ''Trust-region radius became too small''), s, w)
         else Some (Inl (RuntimeError ''Trust-region failed with an unexpected error''), s, w))
      else
        (case tr_iteration R s w of
           (Finished r, s, w) \<Rightarrow> Some (r, s, w)
         | (Retry, s, w) \<Rightarrow> tr_loop R s w))"

definition compute_acceptable_iterate ::
  "('w, 'it, 'm) relaxation_strategy \<Rightarrow> TrustRegionStrategy \<Rightarrow> 'w
     \<Rightarrow> ((error + 'it \<times> real) \<times> TrustRegionStrategy \<times> 'w) option" where
  "compute_acceptable_iterate R s w = tr_loop R (s\<lparr>number_iterations := 0\<rparr>) w"


section \<open>Feasibility restoration (ingredients/constraint\_relaxation/FeasibilityRestoration.cpp)\<close>

datatype Phase = FEASIBILITY_RESTORATION | OPTIMALITY

text \<open>The state of a \<open>FeasibilityRestoration\<close> object: the two globalization strategies (of
  abstract state \<open>'g\<close>), the current phase, and what the code reads of the subproblem and of the
  base class. The fields prefixed by \<open>fr_\<close> carry the names of the source without the
  prefix.\<close>

record 'g FeasibilityRestoration =
  phase_1_strategy :: 'g
  phase_2_strategy :: 'g
  current_phase :: Phase
  fr_subproblem_definition_changed :: bool
  number_subproblem_variables :: nat
  use_proximal_term :: bool
  fr_elastic_variables :: ElasticVariables
  elastic_objective_coefficient :: real

text \<open>The methods of the collaborators that \<open>FeasibilityRestoration\<close> calls; the problem is
  fixed and left implicit. \<open>fr_reset\<close>, \<open>fr_notify\<close> and \<open>fr_check_acceptance\<close> are the
  methods of a globalization strategy; \<open>is_small_step\<close> is
  \<open>ConstraintRelaxationStrategy::is_small_step\<close>; \<open>constraint_violation\<close> and
  \<open>constraint_violation_of\<close> are the two overloads of
  \<open>problem.compute_constraint_violation\<close> (all constraints, a subset of them) in the
  residual norm of the subproblem; \<open>phase_number\<close> is the integer value of the enumeration.
  None of them is among the sources.\<close>

record 'g fr_collaborators =
  fr_reset :: "'g \<Rightarrow> 'g"
  fr_notify :: "Iterate \<Rightarrow> 'g \<Rightarrow> 'g"
  fr_check_acceptance :: "ProgressMeasures \<Rightarrow> ProgressMeasures \<Rightarrow> real \<Rightarrow> real \<Rightarrow> 'g \<Rightarrow> bool \<times> 'g"
  is_small_step :: "Direction \<Rightarrow> bool"
  fr_compute_progress_measures :: "Iterate \<Rightarrow> Iterate"
  compute_residuals :: "Iterate \<Rightarrow> real \<Rightarrow> Iterate"
  set_number_variables :: "nat \<Rightarrow> Iterate \<Rightarrow> Iterate"
  evaluate_constraints :: "Iterate \<Rightarrow> Iterate"
  evaluate_relaxed_constraints :: "Iterate \<Rightarrow> Iterate"
  constraint_violation :: "real list \<Rightarrow> real"
  constraint_violation_of :: "real list \<Rightarrow> nat list \<Rightarrow> real"
  get_proximal_coefficient :: real
  subproblem_number_variables :: nat
  phase_number :: "Phase \<Rightarrow> real"

text \<open>\<open>FeasibilityRestoration::set_restoration_multipliers\<close>.\<close>

definition set_restoration_multipliers :: "real list \<Rightarrow> ConstraintPartition \<Rightarrow> real list" where
  "set_restoration_multipliers constraint_multipliers constraint_partition' =
     fold (\<lambda>j ms. ms[j := - 1]) (upper_bound_infeasible constraint_partition')
       (fold (\<lambda>j ms. ms[j := 1]) (lower_bound_infeasible constraint_partition') constraint_multipliers)"

definition add_to_objective_measure :: "real \<Rightarrow> Iterate \<Rightarrow> Iterate" where
  "add_to_objective_measure v iterate =
     iterate\<lparr>progress := (progress iterate)\<lparr>objective_measure := objective_measure (progress iterate) + v\<rparr>\<rparr>"

text \<open>\<open>FeasibilityRestoration::compute_infeasibility_measures\<close>.\<close>

definition compute_infeasibility_measures ::
  "'g fr_collaborators \<Rightarrow> 'g FeasibilityRestoration \<Rightarrow> Iterate \<Rightarrow> ConstraintPartition option \<Rightarrow> Iterate" where
  "compute_infeasibility_measures C s iterate optional_constraint_partition =
     (case optional_constraint_partition of
        Some constraint_partition' \<Rightarrow>
          (let iterate = evaluate_constraints C iterate;
               feasibility_measure = constraint_violation C (constraints iterate);
               objective_measure' = constraint_violation_of C (constraints iterate) (infeasible constraint_partition')
           in iterate\<lparr>progress := \<lparr>feasibility = feasibility_measure, objective_measure = objective_measure'\<rparr>\<rparr>)
      | None \<Rightarrow>
          (let iterate = evaluate_relaxed_constraints C iterate;
               iterate = fr_compute_progress_measures C iterate
           in fold (\<lambda>i it. add_to_objective_measure (elastic_objective_coefficient s * it_x it ! i) it)
                (for_each_value (negative (fr_elastic_variables s))
                 @ for_each_value (positive (fr_elastic_variables s))) iterate))"

text \<open>\<open>FeasibilityRestoration::add_proximal_term_to_progress_measures\<close>. In C++,
  \<open>1 / std::abs(0.)\<close> is \<open>+infinity\<close> and \<open>std::min(1., +infinity)\<close> is \<open>1\<close>; the division by zero
  of HOL is \<open>0\<close>, so that case is written out.\<close>

definition add_proximal_term_to_progress_measures ::
  "'g fr_collaborators \<Rightarrow> Iterate \<Rightarrow> Iterate \<Rightarrow> Iterate" where
  "add_proximal_term_to_progress_measures C current_iterate trial_iterate =
     fold (\<lambda>i trial.
             (let dr = (if it_x current_iterate ! i = 0 then 1
                        else min 1 (1 / \<bar>it_x current_iterate ! i\<bar>));
                  proximal_term = get_proximal_coefficient C
                                  * (dr * (it_x trial ! i - it_x current_iterate ! i))\<^sup>2
              in add_to_objective_measure proximal_term trial))
          [0 ..< subproblem_number_variables C] trial_iterate"

text \<open>\<open>FeasibilityRestoration::switch_phase\<close>. The C++ method returns a reference to the
  strategy of the phase it ends in; the model returns the object and both iterates, and the
  caller selects the strategy from \<open>current_phase\<close>.\<close>

definition switch_phase ::
  "'g fr_collaborators \<Rightarrow> 'g FeasibilityRestoration \<Rightarrow> Iterate \<Rightarrow> Iterate \<Rightarrow> Direction
     \<Rightarrow> 'g FeasibilityRestoration \<times> Iterate \<times> Iterate" where
  "switch_phase C s current_iterate trial_iterate direction =
     (let (s, current_iterate) =
            (if current_phase s = FEASIBILITY_RESTORATION \<and> 0 < objective_multiplier direction then
               (let s = s\<lparr>current_phase := OPTIMALITY\<rparr>;
                    current_iterate =
                      (if constraint_partition direction \<noteq> None
                       then set_number_variables C (number_subproblem_variables s) current_iterate
                       else current_iterate);
                    current_iterate = evaluate_constraints C current_iterate
                in (s, fr_compute_progress_measures C current_iterate))
             else if current_phase s = OPTIMALITY \<and> objective_multiplier direction = 0 then
               (let s = s\<lparr>current_phase := FEASIBILITY_RESTORATION\<rparr>;
                    s = s\<lparr>phase_2_strategy := fr_notify C current_iterate (phase_2_strategy s)\<rparr>;
                    s = s\<lparr>phase_1_strategy := fr_reset C (phase_1_strategy s)\<rparr>;
                    current_iterate =
                      compute_infeasibility_measures C s current_iterate (constraint_partition direction);
                    s = s\<lparr>phase_1_strategy := fr_notify C current_iterate (phase_1_strategy s)\<rparr>
                in (s, current_iterate))
             else (s, current_iterate));
          trial_iterate =
            (if current_phase s = OPTIMALITY then
               (let trial_iterate = set_number_variables C (number_subproblem_variables s) trial_iterate;
                    trial_iterate = evaluate_constraints C trial_iterate
                in fr_compute_progress_measures C trial_iterate)
             else
               (let trial_iterate =
                      compute_infeasibility_measures C s trial_iterate (constraint_partition direction)
                in if use_proximal_term s
                   then add_proximal_term_to_progress_measures C current_iterate trial_iterate
                   else trial_iterate))
      in (s, current_iterate, trial_iterate))"

text \<open>\<open>FeasibilityRestoration::is_acceptable\<close>. The result is the value returned together
  with every object the C++ method may have modified.\<close>

definition fr_is_acceptable ::
  "'g fr_collaborators \<Rightarrow> 'g FeasibilityRestoration \<Rightarrow> Statistics \<Rightarrow> Iterate \<Rightarrow> Iterate
     \<Rightarrow> Direction \<Rightarrow> (real \<Rightarrow> real) \<Rightarrow> real
     \<Rightarrow> bool \<times> 'g FeasibilityRestoration \<times> Statistics \<times> Iterate \<times> Iterate" where
  "fr_is_acceptable C s statistics current_iterate trial_iterate direction evaluate step_length =
     (let (s, current_iterate) =
            (if fr_subproblem_definition_changed s then
               (s\<lparr>fr_subproblem_definition_changed := False,
                  phase_2_strategy := fr_reset C (phase_2_strategy s)\<rparr>,
                fr_compute_progress_measures C current_iterate)
             else (s, current_iterate));
          (accept, s, current_iterate, trial_iterate) =
            (if is_small_step C direction then
               (True, s, current_iterate, fr_compute_progress_measures C trial_iterate)
             else
               (let (s, current_iterate, trial_iterate) =
                      switch_phase C s current_iterate trial_iterate direction;
                    predicted_reduction = evaluate step_length;
                    current_phase_strategy =
                      (if current_phase s = OPTIMALITY then phase_2_strategy s else phase_1_strategy s);
                    (accept, g) =
                      fr_check_acceptance C (progress current_iterate) (progress trial_iterate)
                        (objective_multiplier direction) predicted_reduction current_phase_strategy;
                    s = (if current_phase s = OPTIMALITY then s\<lparr>phase_2_strategy := g\<rparr>
                         else s\<lparr>phase_1_strategy := g\<rparr>)
                in (accept, s, current_iterate, trial_iterate)))
      in if accept then
           (let statistics = add_statistic ''phase'' (phase_number C (current_phase s)) statistics;
                trial_iterate =
                  (case constraint_partition direction of
                     Some constraint_partition' \<Rightarrow>
                       (if objective_multiplier direction = 0 then
                          trial_iterate\<lparr>it_multipliers := (it_multipliers trial_iterate)
                            \<lparr>constraints_multipliers :=
                               set_restoration_multipliers
                                 (constraints_multipliers (it_multipliers trial_iterate)) constraint_partition'\<rparr>\<rparr>
                        else trial_iterate)
                   | None \<Rightarrow> trial_iterate);
                trial_iterate = compute_residuals C trial_iterate (objective_multiplier direction)
            in (accept, s, statistics, current_iterate, trial_iterate))
         else (accept, s, statistics, current_iterate, trial_iterate))"

section \<open>Specification predicates and example data\<close>

text \<open>What the assertion of \<open>dot\<close> requires of the constraint Jacobian of an iterate: every
  stored column index is a position of the direction.\<close>

definition jacobian_in_range :: "Problem \<Rightarrow> Iterate \<Rightarrow> Direction \<Rightarrow> bool" where
  "jacobian_in_range problem iterate direction \<longleftrightarrow>
     list_all (\<lambda>j. list_all (\<lambda>(index, v). index < length (dir_x direction))
                       (for_each_sv (constraints_jacobian iterate ! j)))
              [0 ..< number_constraints problem]"

text \<open>The diagonal values of a sequence of stored triples, by recursion on the sequence.\<close>

fun diag_of :: "(nat \<times> nat \<times> real) list \<Rightarrow> real list" where
  "diag_of [] = []"
| "diag_of ((i, j, entry) # es) = (if i = j then entry # diag_of es else diag_of es)"

text \<open>The updates of the penalty parameter that the claims allow: each new value is \<open>0\<close>, the
  previous value divided by the decrease factor, or the minimum of the previous value and a
  square.\<close>

fun updates_allowed :: "real \<Rightarrow> real \<Rightarrow> real list \<Rightarrow> bool" where
  "updates_allowed df a [] \<longleftrightarrow> True"
| "updates_allowed df a (b # us) \<longleftrightarrow>
     (b = 0 \<or> b = a / df \<or> (\<exists>t. b = min a (t * t))) \<and> updates_allowed df b us"

text \<open>
  An example: one variable \<open>x\<close>, the objective \<open>f(x) = - 10\<^sup>1\<^sup>2 x\<close>, and one constraint
  \<open>c(x) = x + 1\<close> with bounds \<open>[0, 0]\<close>, at the iterate \<open>x = 0\<close> with a trust region of radius
  \<open>1\<close>. The relaxed subproblem with objective multiplier \<open>\<sigma>\<close> minimizes
  \<open>- 10\<^sup>1\<^sup>2 \<sigma> d + p + n\<close> subject to \<open>1 + d - p + n = 0\<close>, \<open>\<bar>d\<bar> \<le> 1\<close> and \<open>p, n \<ge> 0\<close>, where
  \<open>p\<close> and \<open>n\<close> are the elastic variables, stored at positions \<open>1\<close> and \<open>2\<close> of the
  direction. Its solution is \<open>d = 1, p = 2\<close> when \<open>10\<^sup>1\<^sup>2 \<sigma> > 1\<close> and \<open>d = - 1, p = 0\<close> otherwise.
  The state of the subproblem is the objective multiplier of its current objective model, and
  the state of the globalization strategy counts its resets. The gradient of the Lagrangian is
  \<open>- 10\<^sup>1\<^sup>2 \<sigma> - \<lambda>\<close> and the complementarity error is \<open>1\<close>. The parameters are the typical
  ones, and the penalty parameter has reached \<open>10\<^sup>-\<^sup>1\<^sup>0\<close>.
\<close>

definition example_bounds :: "Range list" where
  "example_bounds = [\<lparr>lb = 0, ub = 0\<rparr>]"

definition example_problem :: Problem where
  "example_problem =
     \<lparr>number_constraints = 1, compute_constraint_violation = bounds_violation example_bounds\<rparr>"

definition example_multipliers :: Multipliers where
  "example_multipliers = \<lparr>lower_bounds = [0], upper_bounds = [0], constraints_multipliers = [0]\<rparr>"

definition example_iterate :: Iterate where
  "example_iterate =
     \<lparr>it_x = [0], it_multipliers = example_multipliers, constraints = [1],
      constraints_jacobian = [\<lparr>indices = [0], values_sv = [1], sv_number_nonzeros = 1\<rparr>],
      lagrangian_gradient = [0], errors_constraints = 1, progress = \<lparr>feasibility = 1, objective_measure = 0\<rparr>\<rparr>"

definition example_elastics :: ElasticVariables where
  "example_elastics =
     \<lparr>positive = \<lparr>indices = [0], values_sv = [1], sv_number_nonzeros = 1\<rparr>,
      negative = \<lparr>indices = [0], values_sv = [2], sv_number_nonzeros = 1\<rparr>\<rparr>"

definition example_solution :: "real \<Rightarrow> Direction" where
  "example_solution \<sigma> =
     (if 1 < 10 ^ 12 * \<sigma> then
        \<lparr>dir_x = [1, 2, 0], multipliers = example_multipliers, at_lower_bound = [],
         at_upper_bound = [0], objective = 2 - 10 ^ 12 * \<sigma>, status = OPTIMAL, dir_norm = 1,
         objective_multiplier = \<sigma>, constraint_partition = None\<rparr>
      else
        \<lparr>dir_x = [- 1, 0, 0], multipliers = example_multipliers, at_lower_bound = [0],
         at_upper_bound = [], objective = 10 ^ 12 * \<sigma>, status = OPTIMAL, dir_norm = 1,
         objective_multiplier = \<sigma>, constraint_partition = None\<rparr>)"

definition example_collaborators :: "(nat, real) l1_collaborators" where
  "example_collaborators =
     \<lparr>strategy_reset = Suc,
      check_acceptance = (\<lambda>current trial \<sigma> predicted g. (False, g)),
      subproblem_solve = (\<lambda>iterate p. (example_solution p, p, iterate)),
      build_objective_model = (\<lambda>iterate \<sigma> p. (\<sigma>, iterate)),
      add_elastic_variables_to_subproblem = (\<lambda>p. p),
      remove_elastic_variables_from_subproblem = (\<lambda>p. p),
      compute_progress_measures = (\<lambda>iterate p. iterate),
      compute_optimality_conditions = (\<lambda>iterate \<sigma>. iterate),
      compute_complementarity_error = (\<lambda>iterate m. 1),
      evaluate_lagrangian_gradient =
        (\<lambda>iterate \<sigma> m. iterate\<lparr>lagrangian_gradient :=
                          [- (10 ^ 12 * \<sigma>) - constraints_multipliers m ! 0]\<rparr>)\<rparr>"

definition example_relaxation :: "(nat, real) l1Relaxation" where
  "example_relaxation =
     \<lparr>globalization_strategy = 0, subproblem = 1 / 10 ^ 10, subproblem_definition_changed = False,
      penalty_parameter = 1 / 10 ^ 10,
      parameters = \<lparr>decrease_factor = 10, epsilon1 = 1 / 10, epsilon2 = 1 / 10\<rparr>,
      penalty_threshold = 1 / 10 ^ 10, elastic_variables = example_elastics,
      penalty_updates = []\<rparr>"

text \<open>The direction of the example for \<open>\<sigma> = 10\<^sup>-\<^sup>1\<^sup>0\<close> once the elastic variables are removed,
  a predicted-reduction model for it (its value at the full step is the negated objective
  \<open>98\<close> of the subproblem), and a direction of norm zero.\<close>

definition example_direction :: Direction where
  "example_direction = (example_solution (1 / 10 ^ 10))\<lparr>dir_x := [1]\<rparr>"

definition example_reduction_model :: "real \<Rightarrow> real" where
  "example_reduction_model step_length = 98 * step_length"

definition example_zero_direction :: Direction where
  "example_zero_direction = (example_solution 0)\<lparr>dir_x := [0], dir_norm := 0\<rparr>"

text \<open>The sum of the stored entries at a position: the value of that entry of the matrix,
  since duplicate coordinates are summed by the consumers.\<close>

definition entry_sum :: "COOSymmetricMatrix \<Rightarrow> nat \<Rightarrow> nat \<Rightarrow> real" where
  "entry_sum m i j =
     sum_list (map (\<lambda>(r, c, entry). entry) (filter (\<lambda>(r, c, entry). r = i \<and> c = j) (entries m)))"

text \<open>The regularization that the amended claim has \<open>modify_inertia\<close> start from.\<close>

definition initial_inertia :: "COOSymmetricMatrix \<Rightarrow> real" where
  "initial_inertia H =
     (if smallest_diagonal_entry H \<le> 0 then beta - smallest_diagonal_entry H else 0)"

text \<open>The course of the inertia correction in the words of the amended claim.
  \<open>regularization_after H k\<close> is the regularization after \<open>k\<close> failed factorizations: the
  first one, then \<open>beta\<close> after \<open>0\<close> and twice the value otherwise.
  \<open>regularized_hessian H k\<close> is the matrix at that point: the first regularization is added
  when the smallest diagonal entry is at most \<open>0\<close>, and each update adds the difference from the
  previous regularization. \<open>factorization_after L H l k\<close> is the state of the linear solver
  after it has factorized that matrix: a symbolic and a numerical factorization of the first
  matrix, a numerical factorization of each later one. \<open>good_inertia\<close> is the test of the solver
  that ends the correction, and \<open>regularization_state L H l k\<close> collects the variables of
  \<open>modify_inertia\<close> after \<open>k\<close> failed factorizations.\<close>

fun regularization_after :: "COOSymmetricMatrix \<Rightarrow> nat \<Rightarrow> real" where
  "regularization_after H 0 = initial_inertia H"
| "regularization_after H (Suc k) =
     (if regularization_after H k = 0 then beta else 2 * regularization_after H k)"

fun regularized_hessian :: "COOSymmetricMatrix \<Rightarrow> nat \<Rightarrow> COOSymmetricMatrix" where
  "regularized_hessian H 0 =
     (if smallest_diagonal_entry H \<le> 0
      then add_identity_multiple H (beta - smallest_diagonal_entry H) else H)"
| "regularized_hessian H (Suc k) =
     add_identity_multiple (regularized_hessian H k)
       (regularization_after H (Suc k) - regularization_after H k)"

fun factorization_after :: "'l LinearSolver \<Rightarrow> COOSymmetricMatrix \<Rightarrow> 'l \<Rightarrow> nat \<Rightarrow> 'l" where
  "factorization_after L H l 0 =
     do_numerical_factorization L (regularized_hessian H 0)
       (do_symbolic_factorization L (regularized_hessian H 0) l)"
| "factorization_after L H l (Suc k) =
     do_numerical_factorization L (regularized_hessian H (Suc k)) (factorization_after L H l k)"

definition good_inertia :: "'l LinearSolver \<Rightarrow> 'l \<Rightarrow> bool" where
  "good_inertia L l \<longleftrightarrow> \<not> matrix_is_singular L l \<and> number_negative_eigenvalues L l = 0"

definition regularization_state ::
  "'l LinearSolver \<Rightarrow> COOSymmetricMatrix \<Rightarrow> 'l \<Rightarrow> nat \<Rightarrow> 'l inertia_state" where
  "regularization_state L H l k =
     \<lparr>hessian = regularized_hessian H k,
      linear_solver = factorization_after L H l k,
      inertia = regularization_after H k,
      previous_inertia = (case k of 0 \<Rightarrow> 0 | Suc j \<Rightarrow> regularization_after H j),
      tested = map (regularization_after H) [0 ..< Suc k]\<rparr>"

text \<open>Examples. A linear solver that accepts every matrix, and a \<open>1 \<times> 1\<close> matrix whose
  diagonal entry \<open>5 \<cdot> 10\<^sup>-\<^sup>5\<close> lies strictly between \<open>0\<close> and \<open>beta\<close>. A linear solver that
  computes the inertia of a \<open>2 \<times> 2\<close> matrix exactly (from its determinant and its first
  diagonal entry; its state holds the three entries of the matrix factorized last). The
  matrix with off-diagonal entry \<open>1.5 \<cdot> 10\<^sup>-\<^sup>4\<close> and no stored diagonal, with the matrices
  that one and two regularization steps make of it. The matrix with the diagonal entries
  \<open>5 \<cdot> 10\<^sup>-\<^sup>5\<close> and the off-diagonal entry \<open>2 \<cdot> 10\<^sup>-\<^sup>4\<close>, which is indefinite until its diagonal
  exceeds \<open>2 \<cdot> 10\<^sup>-\<^sup>4\<close>, with the matrices that one and two regularization steps make of it.\<close>

definition accepting_solver :: "unit LinearSolver" where
  "accepting_solver =
     \<lparr>do_symbolic_factorization = (\<lambda>m l. l), do_numerical_factorization = (\<lambda>m l. l),
      matrix_is_singular = (\<lambda>l. False), number_negative_eigenvalues = (\<lambda>l. 0)\<rparr>"

definition small_diagonal_hessian :: COOSymmetricMatrix where
  "small_diagonal_hessian =
     \<lparr>dimension = 1, number_nonzeros = 1, matrix = [1 / 20000], row_indices = [0],
      column_indices = [0]\<rparr>"

definition exact_solver :: "(real \<times> real \<times> real) LinearSolver" where
  "exact_solver =
     \<lparr>do_symbolic_factorization = (\<lambda>m l. l),
      do_numerical_factorization = (\<lambda>m l. (entry_sum m 0 0, entry_sum m 1 0, entry_sum m 1 1)),
      matrix_is_singular = (\<lambda>(a, b, c). a * c - b * b = 0),
      number_negative_eigenvalues =
        (\<lambda>(a, b, c). if a * c - b * b < 0 then 1 else if a < 0 then 2 else 0)\<rparr>"

definition coupled_hessian :: COOSymmetricMatrix where
  "coupled_hessian =
     \<lparr>dimension = 2, number_nonzeros = 1, matrix = [3 / 20000], row_indices = [1],
      column_indices = [0]\<rparr>"

definition coupled_hessian_1 :: COOSymmetricMatrix where
  "coupled_hessian_1 =
     \<lparr>dimension = 2, number_nonzeros = 3, matrix = [3 / 20000, 1 / 10000, 1 / 10000],
      row_indices = [1, 0, 1], column_indices = [0, 0, 1]\<rparr>"

definition coupled_hessian_2 :: COOSymmetricMatrix where
  "coupled_hessian_2 =
     \<lparr>dimension = 2, number_nonzeros = 5,
      matrix = [3 / 20000, 1 / 10000, 1 / 10000, 1 / 10000, 1 / 10000],
      row_indices = [1, 0, 1, 0, 1], column_indices = [0, 0, 1, 0, 1]\<rparr>"

definition indefinite_hessian :: COOSymmetricMatrix where
  "indefinite_hessian =
     \<lparr>dimension = 2, number_nonzeros = 3, matrix = [1 / 20000, 1 / 5000, 1 / 20000],
      row_indices = [0, 1, 1], column_indices = [0, 0, 1]\<rparr>"

definition indefinite_hessian_1 :: COOSymmetricMatrix where
  "indefinite_hessian_1 =
     \<lparr>dimension = 2, number_nonzeros = 5,
      matrix = [1 / 20000, 1 / 5000, 1 / 20000, 1 / 10000, 1 / 10000],
      row_indices = [0, 1, 1, 0, 1], column_indices = [0, 0, 1, 0, 1]\<rparr>"

definition indefinite_hessian_2 :: COOSymmetricMatrix where
  "indefinite_hessian_2 =
     \<lparr>dimension = 2, number_nonzeros = 7,
      matrix = [1 / 20000, 1 / 5000, 1 / 20000, 1 / 10000, 1 / 10000, 1 / 10000, 1 / 10000],
      row_indices = [0, 1, 1, 0, 1, 0, 1], column_indices = [0, 0, 1, 0, 1, 0, 1]\<rparr>"

text \<open>The states in which the loop of \<open>compute_acceptable_iterate\<close> evaluates its condition:
  \<open>loop_entry R s w k\<close> is the state of the mechanism and of its surroundings after \<open>k\<close> passes
  that asked for another one, when the loop gets that far.\<close>

fun loop_entry ::
  "('w, 'it, 'm) relaxation_strategy \<Rightarrow> TrustRegionStrategy \<Rightarrow> 'w \<Rightarrow> nat
     \<Rightarrow> (TrustRegionStrategy \<times> 'w) option" where
  "loop_entry R s w 0 = Some (s, w)"
| "loop_entry R s w (Suc k) =
     (case loop_entry R s w k of
        None \<Rightarrow> None
      | Some (s1, w1) \<Rightarrow>
          (if termination_tr s1 then None
           else (case tr_iteration R s1 w1 of
                   (Retry, s2, w2) \<Rightarrow> Some (s2, w2)
                 | (Finished r, s2, w2) \<Rightarrow> None)))"

text \<open>An example for the trust-region mechanism. The iterates are points of the real line and
  the current iterate is \<open>0\<close>; the surroundings are the radius of the subproblem built last and
  the statistics. Building a subproblem of radius above \<open>4\<close> raises a numerical error; the
  direction of a subproblem is the step to the upper boundary of its trust region, and it is
  accepted when its norm is at most \<open>1\<close>. The mechanism starts with radius \<open>10\<close> and halves it;
  its least radius is the parameter of the example.\<close>

definition example_step :: "real \<Rightarrow> Direction" where
  "example_step \<Delta> =
     \<lparr>dir_x = [\<Delta>],
      multipliers = \<lparr>lower_bounds = [0], upper_bounds = [- 3], constraints_multipliers = []\<rparr>,
      at_lower_bound = [], at_upper_bound = [0], objective = - \<Delta>, status = OPTIMAL,
      dir_norm = \<Delta>, objective_multiplier = 1, constraint_partition = None\<rparr>"

definition example_strategy :: "(real \<times> Statistics, real, unit) relaxation_strategy" where
  "example_strategy =
     \<lparr>create_current_subproblem =
        (\<lambda>\<Delta> (r, statistics).
           if 4 < \<Delta> then (Inl NumericalError, (r, statistics)) else (Inr (), (\<Delta>, statistics))),
      compute_feasible_direction = (\<lambda>(r, statistics). (Inr (example_step r), (r, statistics))),
      assemble_trial_iterate = (\<lambda>w direction step_length. step_length * dir_norm direction),
      generate_predicted_reduction_model = (\<lambda>direction w. ()),
      is_acceptable =
        (\<lambda>trial direction model step_length w. (Inr (dir_norm direction \<le> 1, trial), w)),
      register_accepted_iterate = (\<lambda>trial w. w),
      statistics_add = (\<lambda>name v (r, statistics). (r, add_statistic name v statistics))\<rparr>"

definition example_trust_region :: "real \<Rightarrow> TrustRegionStrategy" where
  "example_trust_region \<mu> =
     \<lparr>radius = 10, increase_factor = 2, tr_decrease_factor = 2, activity_tolerance = 1 / 1000,
      min_radius = \<mu>, number_iterations = 0\<rparr>"

text \<open>An example for the feasibility restoration, on the problem of the first example
  (\<open>c(x) = x + 1\<close> with bounds \<open>[0, 0]\<close>, at \<open>x = 0\<close>). The state of a globalization strategy is
  the list of the feasibility measures it was notified of; a direction is a small step when its
  norm is \<open>0\<close>; the violation of the constraints is the sum of their absolute values. The
  restoration direction is the step \<open>- 1\<close> with the objective multiplier \<open>0\<close> and the partition
  in which the constraint is infeasible at its upper bound.\<close>

definition example_partition :: ConstraintPartition where
  "example_partition =
     \<lparr>feasible = [], lower_bound_infeasible = [], upper_bound_infeasible = [0], infeasible = [0]\<rparr>"

definition example_restoration_direction :: Direction where
  "example_restoration_direction =
     \<lparr>dir_x = [- 1], multipliers = example_multipliers, at_lower_bound = [0],
      at_upper_bound = [], objective = 0, status = OPTIMAL, dir_norm = 1,
      objective_multiplier = 0, constraint_partition = Some example_partition\<rparr>"

definition example_trial_iterate :: Iterate where
  "example_trial_iterate = example_iterate\<lparr>it_x := [- 1]\<rparr>"

definition example_restoration_collaborators :: "(real list) fr_collaborators" where
  "example_restoration_collaborators =
     \<lparr>fr_reset = (\<lambda>g. []),
      fr_notify = (\<lambda>iterate g. g @ [feasibility (progress iterate)]),
      fr_check_acceptance =
        (\<lambda>current trial \<sigma> predicted g. (feasibility trial < feasibility current, g)),
      is_small_step = (\<lambda>direction. dir_norm direction = 0),
      fr_compute_progress_measures = (\<lambda>iterate. iterate),
      compute_residuals = (\<lambda>iterate \<sigma>. iterate),
      set_number_variables = (\<lambda>n iterate. iterate),
      evaluate_constraints = (\<lambda>iterate. iterate\<lparr>constraints := map (\<lambda>x. x + 1) (it_x iterate)\<rparr>),
      evaluate_relaxed_constraints = (\<lambda>iterate. iterate),
      constraint_violation = (\<lambda>cs. \<Sum>c\<leftarrow>cs. \<bar>c\<bar>),
      constraint_violation_of = (\<lambda>cs js. \<Sum>j\<leftarrow>js. \<bar>cs ! j\<bar>),
      get_proximal_coefficient = 0,
      subproblem_number_variables = 1,
      phase_number = (\<lambda>phase. if phase = FEASIBILITY_RESTORATION then 1 else 2)\<rparr>"

definition example_restoration :: "(real list) FeasibilityRestoration" where
  "example_restoration =
     \<lparr>phase_1_strategy = [], phase_2_strategy = [5], current_phase = OPTIMALITY,
      fr_subproblem_definition_changed = False, number_subproblem_variables = 1,
      use_proximal_term = False, fr_elastic_variables = example_elastics,
      elastic_objective_coefficient = 1\<rparr>"

section \<open>Properties of the coordinate-form matrix\<close>

lemma insert_coo_eq:
  "insert_coo m trm r c =
     m\<lparr>matrix := matrix m @ [trm], row_indices := row_indices m @ [r],
       column_indices := column_indices m @ [c], number_nonzeros := number_nonzeros m + 1\<rparr>"
  by (simp add: insert_coo_def)

lemma fold_insert_diag:
  "fold (\<lambda>i m'. insert_coo m' multiple i i) is m =
     m\<lparr>matrix := matrix m @ replicate (length is) multiple,
       row_indices := row_indices m @ is,
       column_indices := column_indices m @ is,
       number_nonzeros := number_nonzeros m + length is\<rparr>"
proof (induction "is" arbitrary: m)
  case Nil
  show ?case by simp
next
  case (Cons i "is")
  have "fold (\<lambda>i m'. insert_coo m' multiple i i) (i # is) m
        = fold (\<lambda>i m'. insert_coo m' multiple i i) is (insert_coo m multiple i i)"
    by simp
  also have "\<dots> = (insert_coo m multiple i i)
       \<lparr>matrix := matrix (insert_coo m multiple i i) @ replicate (length is) multiple,
        row_indices := row_indices (insert_coo m multiple i i) @ is,
        column_indices := column_indices (insert_coo m multiple i i) @ is,
        number_nonzeros := number_nonzeros (insert_coo m multiple i i) + length is\<rparr>"
    by (rule Cons.IH)
  also have "\<dots> = m\<lparr>matrix := matrix m @ replicate (length (i # is)) multiple,
       row_indices := row_indices m @ (i # is),
       column_indices := column_indices m @ (i # is),
       number_nonzeros := number_nonzeros m + length (i # is)\<rparr>"
    by (simp add: insert_coo_eq)
  finally show ?case .
qed

lemma add_identity_multiple_eq:
  "add_identity_multiple m multiple =
     m\<lparr>matrix := matrix m @ replicate (dimension m) multiple,
       row_indices := row_indices m @ [0 ..< dimension m],
       column_indices := column_indices m @ [0 ..< dimension m],
       number_nonzeros := number_nonzeros m + dimension m\<rparr>"
  by (simp add: add_identity_multiple_def fold_insert_diag)

text \<open>
  Claim C8. Whatever the arguments and whatever the matrix already stores, \<open>insert\<close> appends
  one triple to the three arrays and increments the count of nonzeros by one: an entry with the
  same coordinates is never modified in place. Hence \<open>add_identity_multiple\<close> appends exactly
  \<open>dimension\<close> triples \<open>(i, i, multiple)\<close>, for \<open>i = 0, ..., dimension - 1\<close>, and the count
  grows by \<open>dimension\<close>.
\<close>

theorem insert_always_appends:
  "insert_coo m trm row_index column_index =
     m\<lparr>matrix := matrix m @ [trm],
       row_indices := row_indices m @ [row_index],
       column_indices := column_indices m @ [column_index],
       number_nonzeros := number_nonzeros m + 1\<rparr>
   \<and> add_identity_multiple m multiple =
     m\<lparr>matrix := matrix m @ replicate (dimension m) multiple,
       row_indices := row_indices m @ [0 ..< dimension m],
       column_indices := column_indices m @ [0 ..< dimension m],
       number_nonzeros := number_nonzeros m + dimension m\<rparr>"
  using insert_coo_eq add_identity_multiple_eq by blast

lemma diag_of_eq:
  "map (\<lambda>(i, j, entry). entry) (filter (\<lambda>(i, j, entry). i = j) es) = diag_of es"
  by (induction es rule: diag_of.induct) simp_all

lemma Min_insert_step:
  "finite S \<Longrightarrow> Min (insert (if (v::real) < a then v else a) S) = Min (insert a (insert v S))"
proof (cases "S = {}")
  case True
  then show ?thesis by (simp add: min_def)
next
  case False
  assume "finite S"
  with False have "Min (insert (if v < a then v else a) S) = min (if v < a then v else a) (Min S)"
    and "Min (insert a (insert v S)) = min a (min v (Min S))"
    by simp_all
  then show ?thesis by (simp add: min_def)
qed

lemma fold_min_entry:
  "fold (\<lambda>(i, j, entry). \<lambda>smallest_entry.
           if i = j then min_entry smallest_entry entry else smallest_entry) es acc
   = (case acc of
        None \<Rightarrow> (if diag_of es = [] then None else Some (Min (set (diag_of es))))
      | Some a \<Rightarrow> Some (Min (insert a (set (diag_of es)))))"
proof (induction es arbitrary: acc rule: diag_of.induct)
  case 1
  show ?case by (simp split: option.splits)
next
  case (2 i j v es)
  show ?case
  proof (cases "i = j")
    case False
    then show ?thesis by (cases acc) (simp_all add: "2.IH")
  next
    case True
    show ?thesis
    proof (cases acc)
      case None
      then show ?thesis using True by (simp add: "2.IH")
    next
      case (Some a)
      then show ?thesis using True
        by (simp add: "2.IH" Min_insert_step)
    qed
  qed
qed

lemma smallest_diagonal_entry_eq:
  "smallest_diagonal_entry m =
     (if diagonal_values m = [] then 0 else Min (set (diagonal_values m)))"
  by (simp add: smallest_diagonal_entry_def for_each_def fold_min_entry diagonal_values_def
      diag_of_eq)

lemma set_diagonal_values:
  "set (diagonal_values m) =
     {matrix m ! k | k. k < number_nonzeros m \<and> row_indices m ! k = column_indices m ! k}"
proof -
  have "\<And>k. k < number_nonzeros m \<Longrightarrow> row_indices m ! k = column_indices m ! k \<Longrightarrow>
          \<exists>a. \<exists>x\<in>{0..<number_nonzeros m}.
             a = row_indices m ! x \<and> a = column_indices m ! x \<and> matrix m ! k = matrix m ! x"
    by (metis atLeastLessThan_iff le0)
  then show ?thesis
    by (auto simp: diagonal_values_def entries_def image_iff)
qed

text \<open>
  Claim C9. \<open>smallest_diagonal_entry\<close> returns the minimum of the values of the stored triples
  whose row index equals their column index, and \<open>0\<close> when no stored triple lies on the
  diagonal.
\<close>

theorem smallest_diagonal_entry_minimum:
  "smallest_diagonal_entry m =
     (let D = {matrix m ! k | k. k < number_nonzeros m \<and> row_indices m ! k = column_indices m ! k}
      in if D = {} then 0 else Min D)"
  by (simp add: smallest_diagonal_entry_eq set_diagonal_values [symmetric] Let_def)

section \<open>Properties of the \<open>\<ell>\<^sub>1\<close> relaxation\<close>

subsection \<open>Predicted reduction\<close>

lemma dot_loop_in_range:
  "\<forall>(index, v) \<in> set ys. index < length x \<Longrightarrow>
     dot_loop x ys acc = Inr (acc + (\<Sum>(index, v)\<leftarrow>ys. x ! index * v))"
proof (induction ys arbitrary: acc)
  case Nil
  show ?case by simp
next
  case (Cons y ys)
  obtain index v where y: "y = (index, v)" by (cases y)
  from Cons.prems have "index < length x" and rest: "\<forall>(index, v) \<in> set ys. index < length x"
    by (simp_all add: y)
  then show ?case
    by (simp add: y Cons.IH [OF rest] add.assoc)
qed

lemma norm_1_loop_total:
  "\<forall>j \<in> set js. f j = Inr (g j) \<Longrightarrow> norm_1_loop f js acc = Inr (acc + (\<Sum>j\<leftarrow>js. \<bar>g j\<bar>))"
proof (induction js arbitrary: acc)
  case Nil
  show ?case by simp
next
  case (Cons j js)
  then show ?case by (simp add: add.assoc)
qed

lemma linearized_constraint_violation_sum:
  assumes "jacobian_in_range problem current_iterate direction"
  shows "linearized_constraint_violation problem current_iterate direction step_length =
           Inr (\<Sum>j < number_constraints problem.
                  \<bar>compute_constraint_violation problem
                     (constraints current_iterate ! j
                      + step_length * (\<Sum>(index, v)\<leftarrow>for_each_sv (constraints_jacobian current_iterate ! j).
                                         dir_x direction ! index * v)) j\<bar>)"
proof -
  let ?g = "\<lambda>j. compute_constraint_violation problem
                     (constraints current_iterate ! j
                      + step_length * (\<Sum>(index, v)\<leftarrow>for_each_sv (constraints_jacobian current_iterate ! j).
                                         dir_x direction ! index * v)) j"
  let ?f = "\<lambda>j. case dot (dir_x direction) (constraints_jacobian current_iterate ! j) of
              Inl e \<Rightarrow> Inl e
            | Inr d \<Rightarrow>
                (let component_j = constraints current_iterate ! j + step_length * d
                 in Inr (compute_constraint_violation problem component_j j))"
  have "\<forall>j \<in> set [0 ..< number_constraints problem]. ?f j = Inr (?g j)"
    using assms by (simp add: dot_def dot_loop_in_range jacobian_in_range_def list_all_iff)
  then have "norm_1_loop ?f [0 ..< number_constraints problem] 0
             = Inr (0 + (\<Sum>j\<leftarrow>[0 ..< number_constraints problem]. \<bar>?g j\<bar>))"
    by (rule norm_1_loop_total)
  then show ?thesis
    by (simp add: linearized_constraint_violation_def norm_1_def sum_list_sum_nth
        atLeast0LessThan interv_sum_list_conv_sum_set_nat)
qed

lemma example_jacobian_in_range:
  "jacobian_in_range example_problem example_iterate example_direction"
  by (simp add: jacobian_in_range_def example_problem_def example_iterate_def
      example_direction_def for_each_sv_def)

text \<open>
  Claim C3, as amended. For a step length other than \<open>1\<close>, and a Jacobian whose column indices are
  positions of the direction (\<open>jacobian_in_range\<close>, what \<open>dot\<close> asserts), \<open>compute_predicted_reduction\<close> returns the
  current constraint violation, minus the linearized violation at the step length (the sum over
  the constraints \<open>j\<close> of the violation of \<open>c\<^sub>j(x) + \<alpha> \<nabla>c\<^sub>j\<^sup>T d\<close>), plus the model reduction at the
  step length. At the full step \<open>\<alpha> = 1\<close> it returns the current constraint violation plus the
  model reduction at \<open>1\<close>: no linearized violation is subtracted.
\<close>

theorem predicted_reduction_formula:
  "(step_length \<noteq> 1 \<and> jacobian_in_range problem current_iterate direction
    \<longrightarrow> compute_predicted_reduction problem current_iterate direction evaluate step_length =
          Inr (errors_constraints current_iterate
               - (\<Sum>j < number_constraints problem.
                    \<bar>compute_constraint_violation problem
                       (constraints current_iterate ! j
                        + step_length * (\<Sum>(index, v)\<leftarrow>for_each_sv (constraints_jacobian current_iterate ! j).
                                           dir_x direction ! index * v)) j\<bar>)
               + evaluate step_length))
   \<and> compute_predicted_reduction problem current_iterate direction evaluate 1 =
       Inr (errors_constraints current_iterate + evaluate 1)"
  by (simp add: compute_predicted_reduction_def linearized_constraint_violation_sum)

theorem predicted_reduction_formula_witness:
  "((1 / 2 :: real) \<noteq> 1
    \<and> jacobian_in_range example_problem example_iterate example_direction)
   \<and> compute_predicted_reduction example_problem example_iterate example_direction
        example_reduction_model (1 / 2) = Inr (97 / 2)
   \<and> compute_predicted_reduction example_problem example_iterate example_direction
        example_reduction_model 1 = Inr 99"
  using predicted_reduction_formula [of "1 / 2" example_problem example_iterate example_direction
      example_reduction_model] example_jacobian_in_range
  by (simp add: example_problem_def example_iterate_def example_direction_def for_each_sv_def
      example_reduction_model_def example_solution_def bounds_violation_def example_bounds_def)

text \<open>
  Claim C3 as stated fails at the full step. In the example the linearized violation at
  \<open>\<alpha> = 1\<close> is \<open>2\<close>, so the formula of the claim gives \<open>1 - 2 + 98 = 97\<close>, and the function
  returns \<open>1 + 98 = 99\<close>.
\<close>

theorem predicted_reduction_full_step_counterexample:
  "linearized_constraint_violation example_problem example_iterate example_direction 1 = Inr 2
   \<and> errors_constraints example_iterate - 2 + example_reduction_model 1 = 97
   \<and> compute_predicted_reduction example_problem example_iterate example_direction
        example_reduction_model 1 = Inr 99"
  by (simp add: compute_predicted_reduction_def linearized_constraint_violation_def norm_1_def
      dot_def for_each_sv_def example_problem_def example_iterate_def example_direction_def
      example_reduction_model_def example_solution_def bounds_violation_def example_bounds_def)

subsection \<open>Acceptance of a zero direction\<close>

text \<open>
  Claim C10. For a direction whose norm is \<open>0\<close>, \<open>is_acceptable\<close> returns true; the statistics
  receive the penalty parameter and the trial iterate is the result of
  \<open>compute_optimality_conditions\<close>. Neither \<open>check_acceptance\<close> nor a predicted reduction
  enters the result: the globalization strategy is left as it was (or as \<open>reset\<close> leaves it,
  when the subproblem definition changed), and the result is the same for any other
  \<open>check_acceptance\<close> and any other predicted-reduction model.
\<close>

theorem zero_norm_direction_accepted:
  assumes "dir_norm direction = 0"
  shows "l1_is_acceptable C problem s statistics current_iterate trial_iterate direction evaluate step_length =
     Inr (True,
          (if subproblem_definition_changed s then
             s\<lparr>globalization_strategy := strategy_reset C (globalization_strategy s),
               subproblem_definition_changed := False\<rparr>
           else s),
          add_statistic ''penalty param.'' (penalty_parameter s) statistics,
          (if subproblem_definition_changed s
           then compute_progress_measures C current_iterate (subproblem s) else current_iterate),
          compute_optimality_conditions C trial_iterate (objective_multiplier direction))
    \<and> l1_is_acceptable (C\<lparr>check_acceptance := other_check\<rparr>) problem s statistics current_iterate
         trial_iterate direction other_evaluate step_length
      = l1_is_acceptable C problem s statistics current_iterate trial_iterate direction evaluate step_length"
  using assms by (simp add: l1_is_acceptable_def)

theorem zero_norm_direction_accepted_witness:
  "dir_norm example_zero_direction = 0
   \<and> l1_is_acceptable example_collaborators example_problem example_relaxation []
        example_iterate example_iterate example_zero_direction example_reduction_model 1
      = Inr (True, example_relaxation, [(''penalty param.'', 1 / 10 ^ 10)], example_iterate,
             example_iterate)"
  using zero_norm_direction_accepted [of example_zero_direction example_collaborators
      example_problem example_relaxation "[]" example_iterate example_iterate
      example_reduction_model 1]
  by (simp add: example_zero_direction_def example_relaxation_def example_collaborators_def
      add_statistic_def)

subsection \<open>The steering rule\<close>

lemma resolve_subproblem_state:
  assumes "resolve_subproblem C s current_iterate \<sigma> = Inr (d, s', it')"
  shows "\<exists>p. s' = s\<lparr>subproblem := p\<rparr>"
  using assms
  by (auto simp: resolve_subproblem_def Let_def split: prod.splits sum.splits)

lemma solve_subproblem_state:
  assumes "solve_subproblem C s current_iterate = Inr (d, s', it')"
  shows "\<exists>p. s' = s\<lparr>subproblem := p\<rparr>"
  using assms
  by (auto simp: solve_subproblem_def Let_def split: prod.splits sum.splits)

lemmas steering_loop_induct = steering_loop.raw_induct [rotated, consumes 1, case_names step]

lemma steering_loop_penalty_result:
  assumes "steering_loop C dlv rlv st current_iterate = Some result"
  shows "\<forall>st' it'. result = Inr (st', it') \<longrightarrow>
         1 \<le> decrease_factor (parameters (relaxation st)) \<longrightarrow>
         0 \<le> penalty_parameter (relaxation st) \<longrightarrow>
         (\<exists>us. penalty_updates (relaxation st') = penalty_updates (relaxation st) @ us
             \<and> sorted_wrt (\<ge>) (penalty_parameter (relaxation st) # us)
             \<and> updates_allowed (decrease_factor (parameters (relaxation st)))
                   (penalty_parameter (relaxation st)) us
             \<and> penalty_parameter (relaxation st') = last (penalty_parameter (relaxation st) # us)
             \<and> globalization_strategy (relaxation st') = globalization_strategy (relaxation st))"
  using assms
proof (induction C dlv rlv st current_iterate result rule: steering_loop_induct)
  case (step loop C dlv rlv st current_iterate result)
  let ?s = "relaxation st"
  let ?\<sigma> = "penalty_parameter ?s"
  let ?\<sigma>1 = "?\<sigma> / decrease_factor (parameters ?s)"
  show ?case
  proof (intro allI impI)
    fix st' it'
    assume result: "result = Inr (st', it')"
    assume df: "1 \<le> decrease_factor (parameters ?s)" and nonneg: "0 \<le> ?\<sigma>"
    have le: "?\<sigma>1 \<le> ?\<sigma>" and nonneg1: "0 \<le> ?\<sigma>1"
      using df nonneg by (simp_all add: divide_le_eq mult_le_cancel_left1)
    let ?c1 = "stage_d current_iterate rlv st"
    let ?c2 = "stage_e current_iterate dlv ?c1 st"
    consider (satisfied) "?c2"
      | (threshold) "\<not> ?c2" "?\<sigma>1 < penalty_threshold ?s"
      | (again) "\<not> ?c2" "\<not> ?\<sigma>1 < penalty_threshold ?s"
      by blast
    then show "\<exists>us. penalty_updates (relaxation st') = penalty_updates ?s @ us
             \<and> sorted_wrt (\<ge>) (?\<sigma> # us)
             \<and> updates_allowed (decrease_factor (parameters ?s)) ?\<sigma> us
             \<and> penalty_parameter (relaxation st') = last (?\<sigma> # us)
             \<and> globalization_strategy (relaxation st') = globalization_strategy ?s"
    proof cases
      case satisfied
      with step.hyps result have "st' = st\<lparr>condition1 := ?c1\<rparr>"
        by (auto simp: Let_def)
      then show ?thesis by (intro exI [of _ "[]"]) simp
    next
      case threshold
      with step.hyps result have
        "st' = st\<lparr>relaxation := set_penalty_parameter 0 (set_penalty_parameter ?\<sigma>1 ?s),
                  condition1 := ?c1\<rparr>"
        by (auto simp: Let_def set_penalty_parameter_def)
      then show ?thesis
        using le nonneg1 by (intro exI [of _ "[?\<sigma>1, 0]"]) (simp add: set_penalty_parameter_def)
    next
      case again
      let ?s1 = "set_penalty_parameter ?\<sigma>1 ?s"
      have \<sigma>1: "penalty_parameter ?s1 = ?\<sigma>1" and t1: "penalty_threshold ?s1 = penalty_threshold ?s"
        and p1: "parameters ?s1 = parameters ?s"
        by (simp_all add: set_penalty_parameter_def)
      from again step.hyps have unfolded:
        "(case resolve_subproblem C ?s1 current_iterate ?\<sigma>1 of
            Inl e \<Rightarrow> Some (Inl e)
          | Inr (d, s, current_iterate) \<Rightarrow>
              loop C dlv rlv
                (st\<lparr>relaxation := s, current_direction := d, condition1 := ?c1,
                    linearized_residual :=
                      compute_linearized_constraint_residual (elastic_variables s) (dir_x d)\<rparr>)
                current_iterate)
         = Some result"
        by (simp add: Let_def \<sigma>1 t1 p1)
      then obtain d s2 it2 where
        res: "resolve_subproblem C ?s1 current_iterate ?\<sigma>1 = Inr (d, s2, it2)"
        using result by (cases "resolve_subproblem C ?s1 current_iterate ?\<sigma>1") auto
      obtain p where s2: "s2 = ?s1\<lparr>subproblem := p\<rparr>"
        using resolve_subproblem_state [OF res] by blast
      let ?st2 = "st\<lparr>relaxation := s2, current_direction := d, condition1 := ?c1,
                      linearized_residual :=
                        compute_linearized_constraint_residual (elastic_variables s2) (dir_x d)\<rparr>"
      from unfolded res have call: "loop C dlv rlv ?st2 it2 = Some result"
        by simp
      have rel2: "relaxation ?st2 = s2" by simp
      have \<sigma>2: "penalty_parameter s2 = ?\<sigma>1"
        and u2: "penalty_updates s2 = penalty_updates ?s @ [?\<sigma>1]"
        and g2: "globalization_strategy s2 = globalization_strategy ?s"
        and p2: "parameters s2 = parameters ?s"
        by (simp_all add: s2 set_penalty_parameter_def)
      have "1 \<le> decrease_factor (parameters (relaxation ?st2))"
        and "0 \<le> penalty_parameter (relaxation ?st2)"
        using df nonneg1 unfolding rel2 \<sigma>2 p2 by simp_all
      with step.IH [OF call] result obtain us where
        us: "penalty_updates (relaxation st') = penalty_updates s2 @ us"
          "sorted_wrt (\<ge>) (penalty_parameter s2 # us)"
          "penalty_parameter (relaxation st') = last (penalty_parameter s2 # us)"
          "globalization_strategy (relaxation st') = globalization_strategy s2"
          "updates_allowed (decrease_factor (parameters s2)) (penalty_parameter s2) us"
        unfolding rel2 by blast
      have below: "\<forall>u \<in> set us. u \<le> ?\<sigma>"
        using us(2) le unfolding \<sigma>2 by fastforce
      have "penalty_updates (relaxation st') = penalty_updates ?s @ (?\<sigma>1 # us)"
        using us(1) by (simp add: u2)
      moreover have "sorted_wrt (\<ge>) (?\<sigma> # ?\<sigma>1 # us)"
        using us(2) below le unfolding \<sigma>2 by simp
      moreover have "penalty_parameter (relaxation st') = last (?\<sigma> # ?\<sigma>1 # us)"
        using us(3) unfolding \<sigma>2 by simp
      moreover have "globalization_strategy (relaxation st') = globalization_strategy ?s"
        using us(4) by (simp add: g2)
      moreover have "updates_allowed (decrease_factor (parameters ?s)) ?\<sigma> (?\<sigma>1 # us)"
        using us(5) unfolding \<sigma>2 p2 by simp
      ultimately show ?thesis by blast
    qed
  qed
qed

lemma steering_loop_penalty:
  assumes "steering_loop C dlv rlv st current_iterate = Some (Inr (st', it'))"
    and "1 \<le> decrease_factor (parameters (relaxation st))"
    and "0 \<le> penalty_parameter (relaxation st)"
  shows "\<exists>us. penalty_updates (relaxation st') = penalty_updates (relaxation st) @ us
             \<and> sorted_wrt (\<ge>) (penalty_parameter (relaxation st) # us)
             \<and> updates_allowed (decrease_factor (parameters (relaxation st)))
                   (penalty_parameter (relaxation st)) us
             \<and> penalty_parameter (relaxation st') = last (penalty_parameter (relaxation st) # us)
             \<and> globalization_strategy (relaxation st') = globalization_strategy (relaxation st)"
  using steering_loop_penalty_result [OF assms(1)] assms(2,3) by blast

lemma update_penalty_parameter_penalty:
  assumes "update_penalty_parameter C problem dlv rlv st current_iterate = Some (Inr (st', it'))"
    and df: "1 \<le> decrease_factor (parameters (relaxation st))"
    and pos: "0 < penalty_parameter (relaxation st)"
  shows "\<exists>us. penalty_updates (relaxation st') = penalty_updates (relaxation st) @ us
             \<and> sorted_wrt (\<ge>) (penalty_parameter (relaxation st) # us)
             \<and> updates_allowed (decrease_factor (parameters (relaxation st)))
                   (penalty_parameter (relaxation st)) us
             \<and> penalty_parameter (relaxation st') = last (penalty_parameter (relaxation st) # us)
             \<and> globalization_strategy (relaxation st') = globalization_strategy (relaxation st)"
proof -
  obtain err it1 where ce: "compute_error C problem current_iterate (multipliers dlv) 0 = (err, it1)"
    by (cases "compute_error C problem current_iterate (multipliers dlv) 0")
  show ?thesis
  proof (cases "err = 0")
    case True
    with assms(1) ce have "st' = st\<lparr>relaxation := set_penalty_parameter 0 (relaxation st),
                                   current_direction := dlv\<rparr>"
      by (auto simp: update_penalty_parameter_def Let_def)
    then show ?thesis
      using pos by (intro exI [of _ "[0]"]) (simp add: set_penalty_parameter_def)
  next
    case False
    let ?s = "relaxation st"
    let ?\<sigma> = "penalty_parameter ?s"
    define t where "t = err / max 1 (errors_constraints it1)"
    let ?\<sigma>1 = "min ?\<sigma> (t * t)"
    let ?s1 = "set_penalty_parameter ?\<sigma>1 ?s"
    define r where "r = (if penalty_parameter ?s1 < ?\<sigma> then
                       (if penalty_parameter ?s1 = 0 then Inr (dlv, ?s1, it1)
                        else resolve_subproblem C ?s1 it1 (penalty_parameter ?s1))
                     else Inr (current_direction st, ?s1, it1))"
    from assms(1) have unfolded:
      "(case r of
          Inl e \<Rightarrow> Some (Inl e)
        | Inr (d, s, current_iterate) \<Rightarrow>
            steering_loop C dlv rlv
              (st\<lparr>relaxation := s, current_direction := d, condition1 := False\<rparr>)
              current_iterate) = Some (Inr (st', it'))"
      unfolding update_penalty_parameter_def Let_def ce prod.case if_not_P [OF False] r_def t_def .
    then obtain d s2 it2 where r: "r = Inr (d, s2, it2)"
      by (cases r) auto
    have "\<exists>p. s2 = ?s1\<lparr>subproblem := p\<rparr>"
    proof (cases "penalty_parameter ?s1 < ?\<sigma> \<and> penalty_parameter ?s1 \<noteq> 0")
      case True
      with r have "resolve_subproblem C ?s1 it1 (penalty_parameter ?s1) = Inr (d, s2, it2)"
        by (simp add: r_def)
      then show ?thesis by (rule resolve_subproblem_state)
    next
      case False
      then have "s2 = ?s1" using r by (auto simp: r_def split: if_splits)
      then show ?thesis by (intro exI [of _ "subproblem ?s1"]) simp
    qed
    then obtain p where s2: "s2 = ?s1\<lparr>subproblem := p\<rparr>" by blast
    let ?st2 = "st\<lparr>relaxation := s2, current_direction := d, condition1 := False\<rparr>"
    have call: "steering_loop C dlv rlv ?st2 it2 = Some (Inr (st', it'))"
      using unfolded unfolding r by simp
    have \<sigma>2: "penalty_parameter s2 = ?\<sigma>1"
      and u2: "penalty_updates s2 = penalty_updates ?s @ [?\<sigma>1]"
      and g2: "globalization_strategy s2 = globalization_strategy ?s"
      and p2: "parameters s2 = parameters ?s"
      by (simp_all add: s2 set_penalty_parameter_def)
    have le: "?\<sigma>1 \<le> ?\<sigma>" and nonneg1: "0 \<le> ?\<sigma>1"
      using pos by simp_all
    have "1 \<le> decrease_factor (parameters (relaxation ?st2))"
      and "0 \<le> penalty_parameter (relaxation ?st2)"
      using df nonneg1 by (simp_all add: \<sigma>2 p2)
    with steering_loop_penalty [OF call] obtain us where
      us: "penalty_updates (relaxation st') = penalty_updates s2 @ us"
        "sorted_wrt (\<ge>) (penalty_parameter s2 # us)"
        "penalty_parameter (relaxation st') = last (penalty_parameter s2 # us)"
        "globalization_strategy (relaxation st') = globalization_strategy s2"
        "updates_allowed (decrease_factor (parameters s2)) (penalty_parameter s2) us"
      by auto
    have below: "\<forall>u \<in> set us. u \<le> ?\<sigma>"
      using us(2) le unfolding \<sigma>2 by fastforce
    have "penalty_updates (relaxation st') = penalty_updates ?s @ (?\<sigma>1 # us)"
      using us(1) by (simp add: u2)
    moreover have "sorted_wrt (\<ge>) (?\<sigma> # ?\<sigma>1 # us)"
      using us(2) below le unfolding \<sigma>2 by simp
    moreover have "penalty_parameter (relaxation st') = last (?\<sigma> # ?\<sigma>1 # us)"
      using us(3) unfolding \<sigma>2 by simp
    moreover have "globalization_strategy (relaxation st') = globalization_strategy ?s"
      using us(4) by (simp add: g2)
    moreover have "updates_allowed (decrease_factor (parameters ?s)) ?\<sigma> (?\<sigma>1 # us)"
      using us(5) unfolding \<sigma>2 p2 by auto
    ultimately show ?thesis by blast
  qed
qed

lemma residuals:
  "compute_linearized_constraint_residual example_elastics [1, 2, 0] = 2"
  "compute_linearized_constraint_residual example_elastics [- 1, 0, 0] = 0"
  by (simp_all add: compute_linearized_constraint_residual_def example_elastics_def
      for_each_value_def)

lemma solutions:
  "example_solution (1 / 10000000000) =
        \<lparr>dir_x = [1, 2, 0], multipliers = example_multipliers, at_lower_bound = [],
         at_upper_bound = [0], objective = - 98, status = OPTIMAL, dir_norm = 1,
         objective_multiplier = 1 / 10000000000, constraint_partition = None\<rparr>"
  "example_solution 0 =
        \<lparr>dir_x = [- 1, 0, 0], multipliers = example_multipliers, at_lower_bound = [0],
         at_upper_bound = [], objective = 0, status = OPTIMAL, dir_norm = 1,
         objective_multiplier = 0, constraint_partition = None\<rparr>"
  by (simp_all add: example_solution_def)

lemma example_error:
  "compute_error example_collaborators example_problem example_iterate example_multipliers 0 =
     (1, example_iterate)"
  by (simp add: compute_error_def example_collaborators_def example_problem_def
      example_iterate_def example_multipliers_def norm_1_vector_def Let_def)

lemma example_steering_run:
  "solve_with_steering_rule example_collaborators example_problem example_relaxation
       example_iterate =
     Some (Inr (example_solution (1 / 10000000000),
           example_relaxation\<lparr>globalization_strategy := 1, subproblem := 0, penalty_parameter := 0,
             penalty_updates := [1 / 10000000000, 1 / 100000000000, 0]\<rparr>,
           example_iterate))"
  by (simp add: solve_with_steering_rule_def solve_subproblem_def resolve_subproblem_def
      assert_no_infeasible_constraint_def reset_if_decreased_def
      update_penalty_parameter_def steering_loop.simps stage_d_def stage_e_def
      set_penalty_parameter_def Let_def compute_error_def norm_1_vector_def
      example_collaborators_def example_relaxation_def example_problem_def example_iterate_def
      example_multipliers_def residuals solutions)

text \<open>
  Claim C5. Let a call of \<open>solve_with_steering_rule\<close> with a decrease factor of at least \<open>1\<close>
  return. The values assigned to the penalty parameter during the call, preceded by its value at
  entry, form a non-increasing sequence; each of them is \<open>0\<close>, the previous value divided by the
  decrease factor, or the minimum of the previous value and a square; the value at exit is the
  last of them. The globalization strategy has been reset when the value at exit is strictly
  smaller than the value at entry, and is untouched otherwise.
\<close>

theorem penalty_parameter_never_increases:
  assumes df: "1 \<le> decrease_factor (parameters s)"
    and run: "solve_with_steering_rule C problem s current_iterate = Some (Inr (d, s', it'))"
  shows "\<exists>us. penalty_updates s' = penalty_updates s @ us
             \<and> sorted_wrt (\<ge>) (penalty_parameter s # us)
             \<and> updates_allowed (decrease_factor (parameters s)) (penalty_parameter s) us
             \<and> penalty_parameter s' = last (penalty_parameter s # us)
             \<and> globalization_strategy s' =
                 (if penalty_parameter s' < penalty_parameter s
                  then strategy_reset C (globalization_strategy s)
                  else globalization_strategy s)"
proof -
  obtain d0 s1 it1 where first: "solve_subproblem C s current_iterate = Inr (d0, s1, it1)"
    using run
    by (cases "solve_subproblem C s current_iterate") (auto simp: solve_with_steering_rule_def)
  obtain p1 where s1: "s1 = s\<lparr>subproblem := p1\<rparr>"
    using solve_subproblem_state [OF first] by blast
  define residual where
    "residual = compute_linearized_constraint_residual (elastic_variables s1) (dir_x d0)"
  show ?thesis
  proof (cases "0 < penalty_parameter s1 \<and> residual \<noteq> 0")
    case False
    then have "s' = s1"
      using run first
      by (auto simp: solve_with_steering_rule_def Let_def residual_def split: if_splits)
    then show ?thesis by (intro exI [of _ "[]"]) (simp add: s1)
  next
    case True
    then have pos: "0 < penalty_parameter s1"
      and nz: "compute_linearized_constraint_residual (elastic_variables s1) (dir_x d0) \<noteq> 0"
      by (simp_all add: residual_def)
    obtain dlv s2 it2 where second: "resolve_subproblem C s1 it1 0 = Inr (dlv, s2, it2)"
    proof (cases "resolve_subproblem C s1 it1 0")
      case (Inl e)
      with run first pos nz show ?thesis
        by (simp add: solve_with_steering_rule_def Let_def)
    next
      case (Inr result)
      with that show ?thesis by (cases result) simp
    qed
    obtain p2 where s2: "s2 = s1\<lparr>subproblem := p2\<rparr>"
      using resolve_subproblem_state [OF second] by blast
    define rlv where
      "rlv = compute_linearized_constraint_residual (elastic_variables s2) (dir_x dlv)"
    define st where
      "st = \<lparr>relaxation = s2, current_direction = d0, linearized_residual = residual,
             condition1 = False\<rparr>"
    define updated where
      "updated = (if \<not> (0 < errors_constraints it2 \<and> rlv = errors_constraints it2)
                  then update_penalty_parameter C problem dlv rlv st it2
                  else Some (Inr (st, it2)))"
    from run have unfolded:
      "(case updated of
          None \<Rightarrow> None
        | Some (Inl e) \<Rightarrow> Some (Inl e)
        | Some (Inr (st, current_iterate)) \<Rightarrow>
            Some (Inr (current_direction st,
                       reset_if_decreased C (penalty_parameter s1) (relaxation st),
                       current_iterate))) = Some (Inr (d, s', it'))"
      unfolding solve_with_steering_rule_def first sum.case prod.case if_P [OF pos] Let_def
        if_P [OF nz] second updated_def st_def rlv_def residual_def .
    then obtain st' where upd: "updated = Some (Inr (st', it'))"
      by (auto split: option.splits sum.splits)
    let ?r = "relaxation st'"
    from unfolded upd have s': "s' = reset_if_decreased C (penalty_parameter s1) ?r"
      by simp
    have rel: "relaxation st = s2" by (simp add: st_def)
    have same: "penalty_parameter s2 = penalty_parameter s"
      "penalty_updates s2 = penalty_updates s"
      "parameters s2 = parameters s"
      "globalization_strategy s2 = globalization_strategy s"
      "penalty_parameter s1 = penalty_parameter s"
      by (simp_all add: s1 s2)
    have "\<exists>us. penalty_updates ?r = penalty_updates (relaxation st) @ us
             \<and> sorted_wrt (\<ge>) (penalty_parameter (relaxation st) # us)
             \<and> updates_allowed (decrease_factor (parameters (relaxation st)))
                   (penalty_parameter (relaxation st)) us
             \<and> penalty_parameter ?r = last (penalty_parameter (relaxation st) # us)
             \<and> globalization_strategy ?r = globalization_strategy (relaxation st)"
    proof (cases "\<not> (0 < errors_constraints it2 \<and> rlv = errors_constraints it2)")
      case True
      with upd have
        "update_penalty_parameter C problem dlv rlv st it2 = Some (Inr (st', it'))"
        by (simp add: updated_def)
      moreover have "1 \<le> decrease_factor (parameters (relaxation st))"
        and "0 < penalty_parameter (relaxation st)"
        using df pos by (simp_all add: rel same)
      ultimately show ?thesis by (rule update_penalty_parameter_penalty)
    next
      case False
      with upd have "st' = st" by (auto simp: updated_def)
      then show ?thesis by (intro exI [of _ "[]"]) simp
    qed
    then obtain us where
      us: "penalty_updates ?r = penalty_updates s @ us"
        "sorted_wrt (\<ge>) (penalty_parameter s # us)"
        "updates_allowed (decrease_factor (parameters s)) (penalty_parameter s) us"
        "penalty_parameter ?r = last (penalty_parameter s # us)"
        "globalization_strategy ?r = globalization_strategy s"
      unfolding rel same by blast
    have "penalty_updates s' = penalty_updates ?r" "penalty_parameter s' = penalty_parameter ?r"
      by (simp_all add: s' reset_if_decreased_def)
    moreover have "globalization_strategy s' =
                 (if penalty_parameter ?r < penalty_parameter s
                  then strategy_reset C (globalization_strategy s)
                  else globalization_strategy s)"
      using us(5) by (simp add: s' same reset_if_decreased_def)
    ultimately show ?thesis using us by (intro exI [of _ us]) simp
  qed
qed

theorem penalty_parameter_never_increases_witness:
  "1 \<le> decrease_factor (parameters example_relaxation)
   \<and> solve_with_steering_rule example_collaborators example_problem example_relaxation
         example_iterate =
     Some (Inr (example_solution (1 / 10000000000),
           example_relaxation\<lparr>globalization_strategy := 1, subproblem := 0, penalty_parameter := 0,
             penalty_updates := [1 / 10000000000, 1 / 100000000000, 0]\<rparr>,
           example_iterate))
   \<and> (\<exists>us. [1 / 10000000000, 1 / 100000000000, 0] = penalty_updates example_relaxation @ us
          \<and> sorted_wrt (\<ge>) (penalty_parameter example_relaxation # us)
          \<and> updates_allowed 10 (penalty_parameter example_relaxation) us
          \<and> (0::real) = last (penalty_parameter example_relaxation # us)
          \<and> (1::nat) = strategy_reset example_collaborators 0)"
proof -
  have df: "1 \<le> decrease_factor (parameters example_relaxation)"
    by (simp add: example_relaxation_def)
  show ?thesis
    using penalty_parameter_never_increases [OF df example_steering_run] df example_steering_run
    by (simp add: example_relaxation_def)
qed

text \<open>
  Claim C1, evaluated at the example. The penalty parameter enters at \<open>10\<^sup>-\<^sup>1\<^sup>0\<close>, the threshold.
  The solution \<open>d = 1\<close> for that parameter has the linearized residual \<open>2\<close>, the lowest-violation
  direction is \<open>d = - 1\<close> with residual \<open>0\<close>, and condition 1 fails; the loop divides the
  parameter by \<open>10\<close>, finds it below the threshold, sets it to \<open>0\<close> and exits. The call returns
  the direction computed for \<open>10\<^sup>-\<^sup>1\<^sup>0\<close>, not the lowest-violation direction.
\<close>

theorem steering_exit_keeps_last_direction:
  "solve_with_steering_rule example_collaborators example_problem example_relaxation
       example_iterate =
     Some (Inr (example_solution (1 / 10000000000),
           example_relaxation\<lparr>globalization_strategy := 1, subproblem := 0, penalty_parameter := 0,
             penalty_updates := [1 / 10000000000, 1 / 100000000000, 0]\<rparr>,
           example_iterate))
   \<and> resolve_subproblem example_collaborators example_relaxation example_iterate 0
       = Inr (example_solution 0, example_relaxation\<lparr>subproblem := 0\<rparr>, example_iterate)
   \<and> dir_x (example_solution (1 / 10000000000)) = [1, 2, 0]
   \<and> objective_multiplier (example_solution (1 / 10000000000)) = 1 / 10000000000
   \<and> dir_x (example_solution 0) = [- 1, 0, 0]"
  using example_steering_run
  by (simp add: resolve_subproblem_def assert_no_infeasible_constraint_def
      example_collaborators_def example_relaxation_def solutions)

section \<open>Properties of the inertia correction\<close>

lemmas inertia_loop_induct = inertia_loop.raw_induct [rotated, consumes 1, case_names step]

lemma entries_append:
  assumes "well_formed m" and "length vs = n" and "length rs = n" and "length cs = n"
  shows "entries (m\<lparr>matrix := matrix m @ vs, row_indices := row_indices m @ rs,
                    column_indices := column_indices m @ cs,
                    number_nonzeros := number_nonzeros m + n\<rparr>)
         = entries m @ map (\<lambda>k. (rs ! k, cs ! k, vs ! k)) [0 ..< n]"
  using assms
  by (intro nth_equalityI) (auto simp: entries_def nth_append well_formed_def)

lemma entries_add_identity_multiple:
  assumes "well_formed m"
  shows "entries (add_identity_multiple m d) = entries m @ map (\<lambda>k. (k, k, d)) [0 ..< dimension m]"
proof -
  have "map (\<lambda>k. ([0 ..< dimension m] ! k, [0 ..< dimension m] ! k, replicate (dimension m) d ! k))
            [0 ..< dimension m]
        = map (\<lambda>k. (k, k, d)) [0 ..< dimension m]"
    by (rule map_cong) simp_all
  then show ?thesis
    using entries_append [OF assms, of "replicate (dimension m) d" "dimension m"
        "[0 ..< dimension m]" "[0 ..< dimension m]"]
    by (simp add: add_identity_multiple_eq)
qed

lemma sum_list_single_index:
  "(\<Sum>k\<leftarrow>[0 ..< n]. if k = i then d else (0::real)) = (if i < n then d else 0)"
  by (induction n) simp_all

lemma entry_sum_add_identity_multiple:
  assumes "well_formed m" and "i < dimension m"
  shows "entry_sum (add_identity_multiple m d) i i = entry_sum m i i + d"
proof -
  have "sum_list (map (\<lambda>(r, c, entry). entry)
          (filter (\<lambda>(r, c, entry). r = i \<and> c = i) (map (\<lambda>k. (k, k, d)) [0 ..< dimension m])))
        = (\<Sum>k\<leftarrow>[0 ..< dimension m]. if k = i then d else 0)"
    by (simp add: sum_list_map_filter' filter_map comp_def)
  then show ?thesis
    using assms by (simp add: entry_sum_def entries_add_identity_multiple sum_list_single_index)
qed

lemma well_formed_add_identity_multiple:
  "well_formed m \<Longrightarrow> well_formed (add_identity_multiple m d)"
  by (simp add: well_formed_def add_identity_multiple_eq)

lemma initial_inertia_positive:
  "0 < initial_inertia H \<longleftrightarrow> smallest_diagonal_entry H \<le> 0"
  by (simp add: initial_inertia_def beta_def)

lemma modify_inertia_start:
  "modify_inertia L H l = inertia_loop L (regularization_state L H l 0)"
proof (cases "smallest_diagonal_entry H \<le> 0")
  case True
  then have "0 < beta - smallest_diagonal_entry H" by (simp add: beta_def)
  with True show ?thesis
    by (simp add: modify_inertia_def regularization_state_def initial_inertia_def Let_def)
next
  case False
  then show ?thesis
    by (simp add: modify_inertia_def regularization_state_def initial_inertia_def Let_def)
qed

lemma regularization_state_step:
  "(regularization_state L H l k)
     \<lparr>hessian := add_identity_multiple (hessian (regularization_state L H l k))
                   ((if inertia (regularization_state L H l k) = 0 then beta
                     else 2 * inertia (regularization_state L H l k))
                    - inertia (regularization_state L H l k)),
      linear_solver :=
        do_numerical_factorization L
          (add_identity_multiple (hessian (regularization_state L H l k))
             ((if inertia (regularization_state L H l k) = 0 then beta
               else 2 * inertia (regularization_state L H l k))
              - inertia (regularization_state L H l k)))
          (linear_solver (regularization_state L H l k)),
      inertia := (if inertia (regularization_state L H l k) = 0 then beta
                  else 2 * inertia (regularization_state L H l k)),
      previous_inertia := inertia (regularization_state L H l k),
      tested := tested (regularization_state L H l k)
                @ [if inertia (regularization_state L H l k) = 0 then beta
                   else 2 * inertia (regularization_state L H l k)]\<rparr>
   = regularization_state L H l (Suc k)"
  by (simp add: regularization_state_def)

lemma inertia_loop_succeeded:
  assumes "good_inertia L (factorization_after L H l k)"
  shows "inertia_loop L (regularization_state L H l k) = Some (regularization_state L H l k)"
proof -
  have "good_inertia L (linear_solver (regularization_state L H l k))"
    using assms by (simp add: regularization_state_def)
  then show ?thesis
    by (subst inertia_loop.simps) (simp add: good_inertia_def)
qed

lemma inertia_loop_failed:
  assumes "\<not> good_inertia L (factorization_after L H l k)"
  shows "inertia_loop L (regularization_state L H l k)
         = inertia_loop L (regularization_state L H l (Suc k))"
proof -
  let ?st = "regularization_state L H l k"
  have bad: "\<not> (\<not> matrix_is_singular L (linear_solver ?st)
                \<and> number_negative_eigenvalues L (linear_solver ?st) = 0)"
    using assms by (simp add: regularization_state_def good_inertia_def)
  show ?thesis
    by (subst inertia_loop.simps)
      (simp only: if_not_P [OF bad] Let_def regularization_state_step)
qed

lemma inertia_loop_reaches:
  assumes "good_inertia L (factorization_after L H l k)"
    and "\<forall>j<k. \<not> good_inertia L (factorization_after L H l j)"
  shows "n \<le> k \<Longrightarrow>
         inertia_loop L (regularization_state L H l (k - n)) = Some (regularization_state L H l k)"
proof (induction n)
  case 0
  then show ?case using assms(1) by (simp add: inertia_loop_succeeded)
next
  case (Suc n)
  then have "k - Suc n < k" and next_one: "Suc (k - Suc n) = k - n" by simp_all
  then have "\<not> good_inertia L (factorization_after L H l (k - Suc n))"
    using assms(2) by blast
  then have "inertia_loop L (regularization_state L H l (k - Suc n))
             = inertia_loop L (regularization_state L H l (Suc (k - Suc n)))"
    by (rule inertia_loop_failed)
  also have "\<dots> = Some (regularization_state L H l k)"
    unfolding next_one using Suc by simp
  finally show ?case .
qed

lemma inertia_loop_returns:
  assumes "inertia_loop L st = Some st'"
  shows "\<forall>k. st = regularization_state L H l k \<longrightarrow>
             (\<exists>j. good_inertia L (factorization_after L H l j))"
  using assms
proof (induction L st st' rule: inertia_loop_induct)
  case (step loop L st st')
  show ?case
  proof (intro allI impI)
    fix k
    assume st: "st = regularization_state L H l k"
    show "\<exists>j. good_inertia L (factorization_after L H l j)"
    proof (cases "good_inertia L (factorization_after L H l k)")
      case True
      then show ?thesis by blast
    next
      case False
      then have bad: "\<not> (\<not> matrix_is_singular L (linear_solver st)
                         \<and> number_negative_eigenvalues L (linear_solver st) = 0)"
        by (simp add: st regularization_state_def good_inertia_def)
      from step.hyps have "loop L (regularization_state L H l (Suc k)) = Some st'"
        unfolding if_not_P [OF bad] Let_def unfolding st regularization_state_step .
      from step.IH [OF this] show ?thesis by blast
    qed
  qed
qed

lemma regularized_hessian_entries:
  assumes "well_formed H"
  shows "well_formed (regularized_hessian H k)
         \<and> dimension (regularized_hessian H k) = dimension H
         \<and> number_nonzeros (regularized_hessian H k)
             = number_nonzeros H
               + ((if smallest_diagonal_entry H \<le> 0 then 1 else 0) + k) * dimension H
         \<and> (\<forall>i < dimension H.
               entry_sum (regularized_hessian H k) i i = entry_sum H i i + regularization_after H k)"
proof (induction k)
  case 0
  show ?case
  proof (cases "smallest_diagonal_entry H \<le> 0")
    case True
    let ?d = "beta - smallest_diagonal_entry H"
    have "well_formed (add_identity_multiple H ?d)"
      using assms by (rule well_formed_add_identity_multiple)
    moreover have "dimension (add_identity_multiple H ?d) = dimension H"
      and "number_nonzeros (add_identity_multiple H ?d) = number_nonzeros H + dimension H"
      by (simp_all add: add_identity_multiple_eq)
    moreover have "\<forall>i < dimension H.
        entry_sum (add_identity_multiple H ?d) i i = entry_sum H i i + ?d"
      using entry_sum_add_identity_multiple [OF assms] by blast
    ultimately show ?thesis using True by (simp add: initial_inertia_def)
  next
    case False
    then show ?thesis using assms by (simp add: initial_inertia_def)
  qed
next
  case (Suc k)
  let ?d = "regularization_after H (Suc k) - regularization_after H k"
  from Suc have wf: "well_formed (regularized_hessian H k)"
    and dim: "dimension (regularized_hessian H k) = dimension H"
    and nnz: "number_nonzeros (regularized_hessian H k)
             = number_nonzeros H
               + ((if smallest_diagonal_entry H \<le> 0 then 1 else 0) + k) * dimension H"
    and sums: "\<forall>i < dimension H.
               entry_sum (regularized_hessian H k) i i = entry_sum H i i + regularization_after H k"
    by simp_all
  have "well_formed (regularized_hessian H (Suc k))"
    using wf by (simp add: well_formed_add_identity_multiple)
  moreover have "dimension (regularized_hessian H (Suc k)) = dimension H"
    using dim by (simp add: add_identity_multiple_eq)
  moreover have "number_nonzeros (regularized_hessian H (Suc k))
             = number_nonzeros H
               + ((if smallest_diagonal_entry H \<le> 0 then 1 else 0) + Suc k) * dimension H"
    using nnz dim by (simp add: add_identity_multiple_eq algebra_simps)
  moreover have "\<forall>i < dimension H.
               entry_sum (regularized_hessian H (Suc k)) i i
               = entry_sum H i i + regularization_after H (Suc k)"
  proof (intro allI impI)
    fix i assume i: "i < dimension H"
    then have "i < dimension (regularized_hessian H k)" by (simp add: dim)
    from entry_sum_add_identity_multiple [OF wf this, of ?d]
    have "entry_sum (regularized_hessian H (Suc k)) i i
          = entry_sum (regularized_hessian H k) i i + ?d"
      by simp
    also have "entry_sum (regularized_hessian H k) i i = entry_sum H i i + regularization_after H k"
      using sums i by blast
    finally show "entry_sum (regularized_hessian H (Suc k)) i i
                  = entry_sum H i i + regularization_after H (Suc k)"
      by simp
  qed
  ultimately show ?case by blast
qed

text \<open>
  Claim C2, as amended. Let the factorization after \<open>k\<close> updates be the first one that the
  solver accepts. Then \<open>modify_inertia\<close> returns after exactly \<open>k\<close> updates: the solver has
  factorized the matrix with the first regularization and then the matrix of each update, the
  regularization tested at each factorization is the first one, \<open>beta\<close> after \<open>0\<close> and twice the
  previous one otherwise, and the matrix returned is the given one with the first
  regularization and then each difference appended. When the solver accepts none of these
  factorizations the call does not return. The first regularization is \<open>beta - min_diag(H)\<close>
  when the smallest diagonal entry is at most \<open>0\<close>, and \<open>0\<close> otherwise; for a smallest diagonal
  entry above \<open>0\<close> (also below \<open>beta\<close>) the first factorization is of the matrix as given. After
  \<open>k\<close> updates the matrix holds \<open>dimension\<close> more entries for each addition, and every diagonal
  entry exceeds the original one by the current regularization.
\<close>

theorem modify_inertia_regularization:
  "(good_inertia L (factorization_after L H l k)
      \<and> (\<forall>j<k. \<not> good_inertia L (factorization_after L H l j)) \<longrightarrow>
    modify_inertia L H l = Some (regularization_state L H l k))
   \<and> ((\<forall>j. \<not> good_inertia L (factorization_after L H l j)) \<longrightarrow> modify_inertia L H l = None)
   \<and> regularization_after H 0
       = (if smallest_diagonal_entry H \<le> 0 then beta - smallest_diagonal_entry H else 0)
   \<and> (0 < smallest_diagonal_entry H \<longrightarrow>
        regularized_hessian H 0 = H
        \<and> factorization_after L H l 0
            = do_numerical_factorization L H (do_symbolic_factorization L H l))
   \<and> (well_formed H \<longrightarrow>
        number_nonzeros (regularized_hessian H k)
          = number_nonzeros H
            + ((if smallest_diagonal_entry H \<le> 0 then 1 else 0) + k) * dimension H
        \<and> (\<forall>i < dimension H.
              entry_sum (regularized_hessian H k) i i
              = entry_sum H i i + regularization_after H k))"
proof (intro conjI impI)
  assume "good_inertia L (factorization_after L H l k)
      \<and> (\<forall>j<k. \<not> good_inertia L (factorization_after L H l j))"
  then have "inertia_loop L (regularization_state L H l (k - k))
             = Some (regularization_state L H l k)"
    by (intro inertia_loop_reaches) simp_all
  then show "modify_inertia L H l = Some (regularization_state L H l k)"
    by (simp add: modify_inertia_start)
next
  assume never: "\<forall>j. \<not> good_inertia L (factorization_after L H l j)"
  show "modify_inertia L H l = None"
  proof (cases "modify_inertia L H l")
    case None
    then show ?thesis .
  next
    case (Some st)
    then have "inertia_loop L (regularization_state L H l 0) = Some st"
      by (simp add: modify_inertia_start)
    from inertia_loop_returns [OF this, of H l] never show ?thesis by blast
  qed
next
  show "regularization_after H 0
       = (if smallest_diagonal_entry H \<le> 0 then beta - smallest_diagonal_entry H else 0)"
    by (simp add: initial_inertia_def)
next
  assume "0 < smallest_diagonal_entry H"
  then show "regularized_hessian H 0 = H" by simp
next
  assume "0 < smallest_diagonal_entry H"
  then show "factorization_after L H l 0
            = do_numerical_factorization L H (do_symbolic_factorization L H l)"
    by simp
next
  assume "well_formed H"
  then show "number_nonzeros (regularized_hessian H k)
          = number_nonzeros H
            + ((if smallest_diagonal_entry H \<le> 0 then 1 else 0) + k) * dimension H"
    using regularized_hessian_entries by blast
next
  assume "well_formed H"
  then show "\<forall>i < dimension H.
              entry_sum (regularized_hessian H k) i i
              = entry_sum H i i + regularization_after H k"
    using regularized_hessian_entries by blast
qed

lemma coupled_diagonal_entry: "smallest_diagonal_entry coupled_hessian = 0"
  by (simp add: smallest_diagonal_entry_def for_each_def entries_def coupled_hessian_def)

lemma coupled_steps:
  "add_identity_multiple coupled_hessian (1 / 10000) = coupled_hessian_1"
  "add_identity_multiple coupled_hessian_1 (1 / 10000) = coupled_hessian_2"
  by (simp_all add: add_identity_multiple_eq coupled_hessian_def coupled_hessian_1_def
      coupled_hessian_2_def eval_nat_numeral)

lemma coupled_factorizations:
  "do_numerical_factorization exact_solver coupled_hessian_1 l = (1 / 10000, 3 / 20000, 1 / 10000)"
  "do_numerical_factorization exact_solver coupled_hessian_2 l = (1 / 5000, 3 / 20000, 1 / 5000)"
  "do_symbolic_factorization exact_solver H l = l"
  by (simp_all add: exact_solver_def entry_sum_def entries_def coupled_hessian_1_def
      coupled_hessian_2_def eval_nat_numeral)

lemma exact_inertias:
  "good_inertia exact_solver (1 / 10000, 3 / 20000, 1 / 10000) = False"
  "good_inertia exact_solver (1 / 5000, 3 / 20000, 1 / 5000) = True"
  "good_inertia exact_solver (1 / 20000, 1 / 5000, 1 / 20000) = False"
  "good_inertia exact_solver (3 / 20000, 1 / 5000, 3 / 20000) = False"
  "good_inertia exact_solver (1 / 4000, 1 / 5000, 1 / 4000) = True"
  by (simp_all add: good_inertia_def exact_solver_def)

lemma coupled_course:
  "regularization_after coupled_hessian 0 = 1 / 10000"
  "regularization_after coupled_hessian (Suc 0) = 1 / 5000"
  "regularized_hessian coupled_hessian 0 = coupled_hessian_1"
  "regularized_hessian coupled_hessian (Suc 0) = coupled_hessian_2"
  "factorization_after exact_solver coupled_hessian (0, 0, 0) 0
     = (1 / 10000, 3 / 20000, 1 / 10000)"
  "factorization_after exact_solver coupled_hessian (0, 0, 0) (Suc 0)
     = (1 / 5000, 3 / 20000, 1 / 5000)"
  by (simp_all add: initial_inertia_def coupled_diagonal_entry beta_def coupled_steps
      coupled_factorizations)

lemma indefinite_diagonal_entry: "smallest_diagonal_entry indefinite_hessian = 1 / 20000"
  by (simp add: smallest_diagonal_entry_def for_each_def entries_def indefinite_hessian_def
      eval_nat_numeral)

lemma indefinite_steps:
  "add_identity_multiple indefinite_hessian (1 / 10000) = indefinite_hessian_1"
  "add_identity_multiple indefinite_hessian_1 (1 / 10000) = indefinite_hessian_2"
  by (simp_all add: add_identity_multiple_eq indefinite_hessian_def indefinite_hessian_1_def
      indefinite_hessian_2_def eval_nat_numeral)

lemma indefinite_factorizations:
  "do_numerical_factorization exact_solver indefinite_hessian l
     = (1 / 20000, 1 / 5000, 1 / 20000)"
  "do_numerical_factorization exact_solver indefinite_hessian_1 l
     = (3 / 20000, 1 / 5000, 3 / 20000)"
  "do_numerical_factorization exact_solver indefinite_hessian_2 l
     = (1 / 4000, 1 / 5000, 1 / 4000)"
  by (simp_all add: exact_solver_def entry_sum_def entries_def indefinite_hessian_def
      indefinite_hessian_1_def indefinite_hessian_2_def eval_nat_numeral)

lemma indefinite_course:
  "regularization_after indefinite_hessian 0 = 0"
  "regularization_after indefinite_hessian (Suc 0) = 1 / 10000"
  "regularization_after indefinite_hessian (Suc (Suc 0)) = 1 / 5000"
  "regularized_hessian indefinite_hessian 0 = indefinite_hessian"
  "regularized_hessian indefinite_hessian (Suc 0) = indefinite_hessian_1"
  "regularized_hessian indefinite_hessian (Suc (Suc 0)) = indefinite_hessian_2"
  "factorization_after exact_solver indefinite_hessian (0, 0, 0) 0
     = (1 / 20000, 1 / 5000, 1 / 20000)"
  "factorization_after exact_solver indefinite_hessian (0, 0, 0) (Suc 0)
     = (3 / 20000, 1 / 5000, 3 / 20000)"
  "factorization_after exact_solver indefinite_hessian (0, 0, 0) (Suc (Suc 0))
     = (1 / 4000, 1 / 5000, 1 / 4000)"
  by (simp_all add: initial_inertia_def indefinite_diagonal_entry beta_def indefinite_steps
      indefinite_factorizations coupled_factorizations(3))

theorem modify_inertia_regularization_witness:
  "smallest_diagonal_entry indefinite_hessian = 1 / 20000
   \<and> \<not> good_inertia exact_solver (factorization_after exact_solver indefinite_hessian (0, 0, 0) 0)
   \<and> \<not> good_inertia exact_solver
         (factorization_after exact_solver indefinite_hessian (0, 0, 0) (Suc 0))
   \<and> good_inertia exact_solver
       (factorization_after exact_solver indefinite_hessian (0, 0, 0) (Suc (Suc 0)))
   \<and> modify_inertia exact_solver indefinite_hessian (0, 0, 0) =
       Some \<lparr>hessian = indefinite_hessian_2,
             linear_solver = (1 / 4000, 1 / 5000, 1 / 4000), inertia = 1 / 5000,
             previous_inertia = 1 / 10000, tested = [0, 1 / 10000, 1 / 5000]\<rparr>
   \<and> smallest_diagonal_entry coupled_hessian = 0
   \<and> \<not> good_inertia exact_solver (factorization_after exact_solver coupled_hessian (0, 0, 0) 0)
   \<and> good_inertia exact_solver
       (factorization_after exact_solver coupled_hessian (0, 0, 0) (Suc 0))
   \<and> modify_inertia exact_solver coupled_hessian (0, 0, 0) =
       Some \<lparr>hessian = coupled_hessian_2,
             linear_solver = (1 / 5000, 3 / 20000, 1 / 5000), inertia = 1 / 5000,
             previous_inertia = 1 / 10000, tested = [1 / 10000, 1 / 5000]\<rparr>
   \<and> smallest_diagonal_entry small_diagonal_hessian = 1 / 20000
   \<and> good_inertia accepting_solver (factorization_after accepting_solver small_diagonal_hessian () 0)
   \<and> modify_inertia accepting_solver small_diagonal_hessian () =
       Some \<lparr>hessian = small_diagonal_hessian, linear_solver = (), inertia = 0,
             previous_inertia = 0, tested = [0]\<rparr>"
proof -
  have small: "smallest_diagonal_entry small_diagonal_hessian = 1 / 20000"
    by (simp add: smallest_diagonal_entry_def for_each_def entries_def small_diagonal_hessian_def)
  have accepted: "good_inertia accepting_solver l" for l
    by (simp add: good_inertia_def accepting_solver_def)
  have small_course: "regularization_after small_diagonal_hessian 0 = 0"
    "regularized_hessian small_diagonal_hessian 0 = small_diagonal_hessian"
    by (simp_all add: initial_inertia_def small)
  have two: "(\<forall>j<Suc (Suc 0). P j) \<longleftrightarrow> P 0 \<and> P (Suc 0)" for P
    by (auto simp: less_Suc_eq)
  have one: "(\<forall>j<Suc 0. P j) \<longleftrightarrow> P 0" for P
    by simp
  have upt: "[0 ..< Suc (Suc (Suc 0))] = [0, Suc 0, Suc (Suc 0)]" "[0 ..< Suc (Suc 0)] = [0, Suc 0]"
    by simp_all
  show ?thesis
    using modify_inertia_regularization
            [of exact_solver indefinite_hessian "(0, 0, 0)" "Suc (Suc 0)", THEN conjunct1]
          modify_inertia_regularization
            [of exact_solver coupled_hessian "(0, 0, 0)" "Suc 0", THEN conjunct1]
          modify_inertia_regularization
            [of accepting_solver small_diagonal_hessian "()" 0, THEN conjunct1]
    unfolding two one regularization_state_def upt
    by (simp add: indefinite_course coupled_course exact_inertias indefinite_diagonal_entry
        coupled_diagonal_entry small accepted small_course
        del: regularization_after.simps regularized_hessian.simps factorization_after.simps)
qed

text \<open>
  Claim C2 as stated fails for a smallest diagonal entry strictly between \<open>0\<close> and \<open>beta\<close>: for
  the entry \<open>5 \<cdot> 10\<^sup>-\<^sup>5\<close> the claim has \<open>5 \<cdot> 10\<^sup>-\<^sup>5\<close> added before the first factorization,
  and the function factorizes the matrix as it is, with the regularization \<open>0\<close>.
\<close>

lemma small_diagonal_entry: "smallest_diagonal_entry small_diagonal_hessian = 1 / 20000"
  by (simp add: smallest_diagonal_entry_def for_each_def entries_def small_diagonal_hessian_def)

theorem modify_inertia_small_diagonal_counterexample:
  "smallest_diagonal_entry small_diagonal_hessian = 1 / 20000
   \<and> max 0 (beta - smallest_diagonal_entry small_diagonal_hessian) = 1 / 20000
   \<and> modify_inertia accepting_solver small_diagonal_hessian () =
       Some \<lparr>hessian = small_diagonal_hessian, linear_solver = (), inertia = 0,
             previous_inertia = 0, tested = [0]\<rparr>"
  apply (simp add: small_diagonal_entry modify_inertia_def beta_def)
  apply (subst inertia_loop.simps)
  apply (simp add: accepting_solver_def)
  done

section \<open>Properties of the trust-region mechanism\<close>

lemmas tr_loop_induct = tr_loop.raw_induct [rotated, consumes 1, case_names step]

lemma rectify_active_set_norm:
  "rectify_active_set direction \<Delta> = Inr d \<Longrightarrow> dir_norm d = dir_norm direction"
  by (auto simp: rectify_active_set_def Let_def split: if_splits)

lemma rectify_active_set_error:
  "rectify_active_set direction \<Delta> = Inl e \<Longrightarrow> e = AssertionFailed ''0 < radius'' \<and> \<not> 0 < \<Delta>"
  by (auto simp: rectify_active_set_def Let_def split: if_splits)

lemma tr_iteration_constants:
  assumes "tr_iteration R s w = (p, s', w')"
  shows "min_radius s' = min_radius s \<and> tr_decrease_factor s' = tr_decrease_factor s"
  using assms
  by (auto simp: tr_iteration_def catch_numerical_error_def Let_def
      split: prod.splits sum.splits if_splits)

lemma tr_iteration_retry:
  assumes "tr_iteration R s w = (Retry, s', w')" and "0 < tr_decrease_factor s"
  shows "radius s' \<le> radius s / tr_decrease_factor s"
  using assms
  by (auto simp: tr_iteration_def catch_numerical_error_def Let_def divide_right_mono
      split: prod.splits sum.splits if_splits)

lemma tr_iteration_finished:
  assumes "tr_iteration R s w = (Finished r, s', w')"
  shows "case r of
           Inl e \<Rightarrow> e \<noteq> NumericalError
         | Inr (trial, n) \<Rightarrow>
             (\<exists>t d m w1 w2. is_acceptable R t d m 1 w1 = (Inr (True, trial), w2) \<and> n = dir_norm d)"
  using assms
  apply (auto simp: tr_iteration_def catch_numerical_error_def check_unboundedness_def Let_def
      dest: rectify_active_set_error split: prod.splits sum.splits if_splits)
   apply blast+
  done

lemma tr_loop_stops:
  "termination_tr s \<Longrightarrow>
     tr_loop R s w = Some (Inl (RuntimeError ''Trust-region radius became too small''), s, w)"
  by (subst tr_loop.simps) (simp add: termination_tr_def)

lemma tr_loop_continues:
  "\<not> termination_tr s \<Longrightarrow>
     tr_loop R s w = (case tr_iteration R s w of
                        (Finished r, s', w') \<Rightarrow> Some (r, s', w')
                      | (Retry, s', w') \<Rightarrow> tr_loop R s' w')"
  by (subst tr_loop.simps) simp

lemma tr_loop_outcome:
  assumes "tr_loop R s w = Some result"
  shows "case fst result of
           Inl e \<Rightarrow> e \<noteq> NumericalError
         | Inr (trial, n) \<Rightarrow>
             (\<exists>t d m w1 w2. is_acceptable R t d m 1 w1 = (Inr (True, trial), w2) \<and> n = dir_norm d)"
  using assms
proof (induction R s w result rule: tr_loop_induct)
  case (step loop R s w result)
  show ?case
  proof (cases "termination_tr s")
    case True
    with step.hyps show ?thesis by (auto split: if_splits)
  next
    case False
    obtain p s1 w1 where it: "tr_iteration R s w = (p, s1, w1)"
      by (cases "tr_iteration R s w")
    show ?thesis
    proof (cases p)
      case (Finished r)
      with False it step.hyps have "result = (r, s1, w1)" by simp
      with tr_iteration_finished [of R s w r s1 w1] it Finished show ?thesis by simp
    next
      case Retry
      with False it step.hyps have "loop R s1 w1 = Some result" by simp
      then show ?thesis by (rule step.IH)
    qed
  qed
qed

lemma tr_loop_terminates_within:
  assumes "0 < min_radius s" and "1 < tr_decrease_factor s"
    and "radius s < min_radius s * tr_decrease_factor s ^ k"
  shows "\<exists>r. tr_loop R s w = Some r"
  using assms
proof (induction k arbitrary: s w)
  case 0
  then have "termination_tr s" by (simp add: termination_tr_def)
  then show ?case by (simp add: tr_loop_stops)
next
  case (Suc k)
  show ?case
  proof (cases "termination_tr s")
    case True
    then show ?thesis by (simp add: tr_loop_stops)
  next
    case False
    obtain p s1 w1 where it: "tr_iteration R s w = (p, s1, w1)"
      by (cases "tr_iteration R s w")
    show ?thesis
    proof (cases p)
      case (Finished r)
      with False it show ?thesis by (simp add: tr_loop_continues)
    next
      case Retry
      have same: "min_radius s1 = min_radius s" "tr_decrease_factor s1 = tr_decrease_factor s"
        using tr_iteration_constants [OF it] by simp_all
      have df: "0 < tr_decrease_factor s" using Suc.prems(2) by simp
      have "radius s1 \<le> radius s / tr_decrease_factor s"
        using tr_iteration_retry [of R s w s1 w1] it Retry df by simp
      also have "\<dots> < min_radius s * tr_decrease_factor s ^ k"
        using Suc.prems(3) df by (simp add: divide_less_eq algebra_simps)
      finally have "radius s1 < min_radius s1 * tr_decrease_factor s1 ^ k"
        by (simp add: same)
      moreover have "0 < min_radius s1" "1 < tr_decrease_factor s1"
        using Suc.prems by (simp_all add: same)
      ultimately have "\<exists>r. tr_loop R s1 w1 = Some r"
        using Suc.IH by blast
      with False it Retry show ?thesis by (simp add: tr_loop_continues)
    qed
  qed
qed

lemma tr_loop_terminates:
  assumes "0 < min_radius s" and "1 < tr_decrease_factor s"
  shows "\<exists>r. tr_loop R s w = Some r"
proof -
  obtain k where "radius s / min_radius s < tr_decrease_factor s ^ k"
    using real_arch_pow [OF assms(2)] by blast
  then have "radius s < min_radius s * tr_decrease_factor s ^ k"
    using assms(1) by (simp add: divide_less_eq mult.commute)
  with assms show ?thesis by (rule tr_loop_terminates_within)
qed

lemma loop_entry_constants:
  "loop_entry R s w k = Some (s1, w1) \<Longrightarrow>
     min_radius s1 = min_radius s \<and> tr_decrease_factor s1 = tr_decrease_factor s"
proof (induction k arbitrary: s1 w1)
  case 0
  then show ?case by simp
next
  case (Suc k)
  from Suc.prems obtain s0 w0 where
    prev: "loop_entry R s w k = Some (s0, w0)" and
    it: "tr_iteration R s0 w0 = (Retry, s1, w1)"
    by (auto split: option.splits if_splits prod.splits pass.splits)
  from Suc.IH [OF prev] tr_iteration_constants [OF it] show ?case by simp
qed

lemma loop_entry_tr_loop:
  "loop_entry R s w k = Some (s1, w1) \<Longrightarrow> tr_loop R s w = tr_loop R s1 w1"
proof (induction k arbitrary: s1 w1)
  case 0
  then show ?case by simp
next
  case (Suc k)
  from Suc.prems obtain s0 w0 where
    prev: "loop_entry R s w k = Some (s0, w0)" and
    go: "\<not> termination_tr s0" and
    it: "tr_iteration R s0 w0 = (Retry, s1, w1)"
    by (auto split: option.splits if_splits prod.splits pass.splits)
  have "tr_loop R s w = tr_loop R s0 w0" by (rule Suc.IH [OF prev])
  also have "\<dots> = tr_loop R s1 w1" using go it by (simp add: tr_loop_continues)
  finally show ?case .
qed

lemma example_rectified:
  "0 < \<Delta> \<Longrightarrow> rectify_active_set (example_step \<Delta>) \<Delta> =
     Inr ((example_step \<Delta>)
            \<lparr>at_upper_bound := [],
             multipliers := \<lparr>lower_bounds = [0], upper_bounds = [0], constraints_multipliers = []\<rparr>\<rparr>)"
  by (simp add: rectify_active_set_def example_step_def)

lemma example_iterations:
  "tr_iteration example_strategy (example_trust_region \<mu>) (0, [])
     = (Retry, (example_trust_region \<mu>)\<lparr>radius := 5, number_iterations := Suc 0\<rparr>, (0, []))"
  "tr_iteration example_strategy ((example_trust_region \<mu>)\<lparr>radius := 5, number_iterations := Suc 0\<rparr>) (0, [])
     = (Retry, (example_trust_region \<mu>)\<lparr>radius := 5 / 2, number_iterations := 2\<rparr>, (0, []))"
  "tr_iteration example_strategy ((example_trust_region \<mu>)\<lparr>radius := 5 / 2, number_iterations := 2\<rparr>) (0, [])
     = (Retry, (example_trust_region \<mu>)\<lparr>radius := 5 / 4, number_iterations := 3\<rparr>, (5 / 2, []))"
  "tr_iteration example_strategy ((example_trust_region \<mu>)\<lparr>radius := 5 / 4, number_iterations := 3\<rparr>) (5 / 2, [])
     = (Retry, (example_trust_region \<mu>)\<lparr>radius := 5 / 8, number_iterations := 4\<rparr>, (5 / 4, []))"
  "tr_iteration example_strategy ((example_trust_region \<mu>)\<lparr>radius := 5 / 8, number_iterations := 4\<rparr>) (5 / 4, [])
     = (Finished (Inr (5 / 8, 5 / 8)),
        (example_trust_region \<mu>)\<lparr>radius := 5 / 4, number_iterations := 5\<rparr>,
        (5 / 8, [(''minor'', 5), (''TR radius'', 5 / 8), (''step norm'', 5 / 8)]))"
  by (simp_all add: tr_iteration_def catch_numerical_error_def check_unboundedness_def
      example_rectified add_statistics_def add_statistic_def Let_def
      example_strategy_def example_trust_region_def, simp_all add: example_step_def)

lemma example_termination:
  "termination_tr (example_trust_region \<mu>) \<longleftrightarrow> 10 < \<mu>"
  "termination_tr ((example_trust_region \<mu>)\<lparr>radius := r, number_iterations := n\<rparr>) \<longleftrightarrow> r < \<mu>"
  by (simp_all add: termination_tr_def example_trust_region_def)

lemma example_start:
  "(example_trust_region \<mu>)\<lparr>number_iterations := 0\<rparr> = example_trust_region \<mu>"
  by (simp add: example_trust_region_def)

lemma example_trust_region_run:
  "compute_acceptable_iterate example_strategy (example_trust_region (1 / 10 ^ 16)) (0, []) =
     Some (Inr (5 / 8, 5 / 8),
           (example_trust_region (1 / 10 ^ 16))\<lparr>radius := 5 / 4, number_iterations := 5\<rparr>,
           (5 / 8, [(''minor'', 5), (''TR radius'', 5 / 8), (''step norm'', 5 / 8)]))"
  unfolding compute_acceptable_iterate_def example_start
  by (simp add: tr_loop_continues example_termination example_iterations)

lemma example_loop_entry_steps:
  "loop_entry example_strategy (example_trust_region 1) (0, []) (Suc (Suc (Suc (Suc 0)))) =
     Some ((example_trust_region 1)\<lparr>radius := 5 / 8, number_iterations := 4\<rparr>, (5 / 4, []))"
  by (simp add: example_termination example_iterations)

lemma example_loop_entry:
  "loop_entry example_strategy (example_trust_region 1) (0, []) 4 =
     Some ((example_trust_region 1)\<lparr>radius := 5 / 8, number_iterations := 4\<rparr>, (5 / 4, []))"
proof -
  have "(4::nat) = Suc (Suc (Suc (Suc 0)))" by simp
  then show ?thesis using example_loop_entry_steps by presburger
qed

lemma tr_iteration_rejected:
  assumes "0 < radius s"
    and "create_current_subproblem R (radius s) w = (Inr (), w1)"
    and "compute_feasible_direction R w1 = (Inr d, w2)"
    and "status d \<noteq> UNBOUNDED_PROBLEM"
    and "rectify_active_set d (radius s) = Inr d'"
    and "is_acceptable R (assemble_trial_iterate R w2 d' 1) d'
           (generate_predicted_reduction_model R d' w2) 1 w2 = (Inr (False, t), w3)"
  shows "tr_iteration R s w =
           (Retry,
            s\<lparr>number_iterations := number_iterations s + 1,
              radius := min (radius s) (dir_norm d) / tr_decrease_factor s\<rparr>, w3)"
  using assms rectify_active_set_norm [OF assms(5)]
  by (simp add: tr_iteration_def check_unboundedness_def Let_def)

text \<open>
  Claim C6. When a pass of the loop computes a direction \<open>d\<close> and \<open>is_acceptable\<close> rejects the
  trial iterate, the pass ends with the radius \<open>min(\<Delta>, \<parallel>d\<parallel>) / decrease_factor\<close>, where \<open>\<Delta>\<close> is
  the radius it started with, and the loop goes on from that state. For a decrease factor of at
  least \<open>1\<close> (and a norm that is not negative) that radius is at most the norm of the rejected
  direction.
\<close>

theorem rejected_direction_bounds_radius:
  assumes "0 < radius s"
    and "create_current_subproblem R (radius s) w = (Inr (), w1)"
    and "compute_feasible_direction R w1 = (Inr d, w2)"
    and "status d \<noteq> UNBOUNDED_PROBLEM"
    and "rectify_active_set d (radius s) = Inr d'"
    and "is_acceptable R (assemble_trial_iterate R w2 d' 1) d'
           (generate_predicted_reduction_model R d' w2) 1 w2 = (Inr (False, t), w3)"
  shows "tr_iteration R s w =
           (Retry,
            s\<lparr>number_iterations := number_iterations s + 1,
              radius := min (radius s) (dir_norm d) / tr_decrease_factor s\<rparr>, w3)
         \<and> (\<not> termination_tr s \<longrightarrow>
              tr_loop R s w =
              tr_loop R (s\<lparr>number_iterations := number_iterations s + 1,
                           radius := min (radius s) (dir_norm d) / tr_decrease_factor s\<rparr>) w3)
         \<and> (1 \<le> tr_decrease_factor s \<and> 0 \<le> dir_norm d \<longrightarrow>
              min (radius s) (dir_norm d) / tr_decrease_factor s \<le> dir_norm d)"
proof (intro conjI impI)
  show it: "tr_iteration R s w =
           (Retry,
            s\<lparr>number_iterations := number_iterations s + 1,
              radius := min (radius s) (dir_norm d) / tr_decrease_factor s\<rparr>, w3)"
    using assms by (rule tr_iteration_rejected)
  show "tr_loop R s w =
        tr_loop R (s\<lparr>number_iterations := number_iterations s + 1,
                     radius := min (radius s) (dir_norm d) / tr_decrease_factor s\<rparr>) w3"
    if "\<not> termination_tr s"
    using that it by (simp add: tr_loop_continues)
  show "min (radius s) (dir_norm d) / tr_decrease_factor s \<le> dir_norm d"
    if "1 \<le> tr_decrease_factor s \<and> 0 \<le> dir_norm d"
  proof -
    have "0 \<le> min (radius s) (dir_norm d)"
      using that assms(1) by simp
    then have "min (radius s) (dir_norm d) / tr_decrease_factor s
               \<le> min (radius s) (dir_norm d) / 1"
      using that by (intro divide_left_mono) simp_all
    then show ?thesis by simp
  qed
qed

theorem rejected_direction_bounds_radius_witness:
  "0 < radius ((example_trust_region 1)\<lparr>radius := 5 / 2, number_iterations := 2\<rparr>)
   \<and> create_current_subproblem example_strategy (5 / 2) (0, []) = (Inr (), (5 / 2, []))
   \<and> compute_feasible_direction example_strategy (5 / 2, []) = (Inr (example_step (5 / 2)), (5 / 2, []))
   \<and> status (example_step (5 / 2)) \<noteq> UNBOUNDED_PROBLEM
   \<and> dir_norm (example_step (5 / 2)) = 5 / 2
   \<and> tr_iteration example_strategy ((example_trust_region 1)\<lparr>radius := 5 / 2, number_iterations := 2\<rparr>)
        (0, [])
      = (Retry, (example_trust_region 1)\<lparr>radius := 5 / 4, number_iterations := 3\<rparr>, (5 / 2, []))
   \<and> (5 / 4 :: real) \<le> 5 / 2"
proof -
  let ?s = "(example_trust_region 1)\<lparr>radius := 5 / 2, number_iterations := 2\<rparr>"
  let ?d' = "(example_step (5 / 2))
            \<lparr>at_upper_bound := [],
             multipliers := \<lparr>lower_bounds = [0], upper_bounds = [0], constraints_multipliers = []\<rparr>\<rparr>"
  have 1: "0 < radius ?s" by simp
  have 2: "create_current_subproblem example_strategy (radius ?s) (0, []) = (Inr (), (5 / 2, []))"
    by (simp add: example_strategy_def)
  have 3: "compute_feasible_direction example_strategy (5 / 2, [])
           = (Inr (example_step (5 / 2)), (5 / 2, []))"
    by (simp add: example_strategy_def)
  have 4: "status (example_step (5 / 2)) \<noteq> UNBOUNDED_PROBLEM"
    by (simp add: example_step_def)
  have 5: "rectify_active_set (example_step (5 / 2)) (radius ?s) = Inr ?d'"
    by (simp add: example_rectified)
  have 6: "is_acceptable example_strategy
             (assemble_trial_iterate example_strategy (5 / 2, []) ?d' 1) ?d'
             (generate_predicted_reduction_model example_strategy ?d' (5 / 2, [])) 1 (5 / 2, [])
           = (Inr (False, 5 / 2), (5 / 2, []))"
    by (simp add: example_strategy_def example_step_def)
  show ?thesis
    using rejected_direction_bounds_radius [OF 1 2 3 4 5 6] 2 3 4
    by (simp add: example_step_def example_trust_region_def)
qed

lemma tr_iteration_accepted:
  assumes "0 < radius s"
    and "create_current_subproblem R (radius s) w = (Inr (), w1)"
    and "compute_feasible_direction R w1 = (Inr d, w2)"
    and "status d \<noteq> UNBOUNDED_PROBLEM"
    and "rectify_active_set d (radius s) = Inr d'"
    and "is_acceptable R (assemble_trial_iterate R w2 d' 1) d'
           (generate_predicted_reduction_model R d' w2) 1 w2 = (Inr (True, t), w3)"
  shows "tr_iteration R s w =
           (Finished (Inr (t, dir_norm d)),
            (if dir_norm d \<ge> radius s - activity_tolerance s
             then s\<lparr>number_iterations := number_iterations s + 1,
                    radius := radius s * increase_factor s\<rparr>
             else s\<lparr>number_iterations := number_iterations s + 1\<rparr>),
            register_accepted_iterate R t
              (add_statistics R (s\<lparr>number_iterations := number_iterations s + 1\<rparr>) d' w3))"
  using assms rectify_active_set_norm [OF assms(5)]
  by (simp add: tr_iteration_def check_unboundedness_def Let_def)

lemma tr_iteration_returned:
  assumes "tr_iteration R s w = (Finished (Inr (trial, n)), s', w')"
  shows "\<exists>w1 w2 w3 d d'.
           0 < radius s
           \<and> create_current_subproblem R (radius s) w = (Inr (), w1)
           \<and> compute_feasible_direction R w1 = (Inr d, w2)
           \<and> status d \<noteq> UNBOUNDED_PROBLEM
           \<and> rectify_active_set d (radius s) = Inr d'
           \<and> is_acceptable R (assemble_trial_iterate R w2 d' 1) d'
                (generate_predicted_reduction_model R d' w2) 1 w2 = (Inr (True, trial), w3)
           \<and> n = dir_norm d"
proof -
  have pos: "0 < radius s"
    using assms by (auto simp: tr_iteration_def split: if_splits)
  let ?s = "s\<lparr>number_iterations := number_iterations s + 1\<rparr>"
  obtain r1 w1 where 1: "create_current_subproblem R (radius s) w = (r1, w1)"
    by (cases "create_current_subproblem R (radius s) w")
  have r1: "r1 = Inr ()"
    using assms pos 1
    by (cases r1) (auto simp: tr_iteration_def catch_numerical_error_def Let_def split: if_splits)
  obtain r2 w2 where 2: "compute_feasible_direction R w1 = (r2, w2)"
    by (cases "compute_feasible_direction R w1")
  obtain d where r2: "r2 = Inr d"
    using assms pos 1 r1 2
    by (cases r2) (auto simp: tr_iteration_def catch_numerical_error_def Let_def split: if_splits)
  have bounded: "status d \<noteq> UNBOUNDED_PROBLEM"
    using assms pos 1 r1 2 r2
    by (auto simp: tr_iteration_def check_unboundedness_def Let_def split: if_splits)
  obtain d' where 3: "rectify_active_set d (radius s) = Inr d'"
    using pos by (simp add: rectify_active_set_def Let_def)
  have norm: "dir_norm d' = dir_norm d"
    using 3 by (rule rectify_active_set_norm)
  obtain r4 w3 where 4: "is_acceptable R (assemble_trial_iterate R w2 d' 1) d'
                (generate_predicted_reduction_model R d' w2) 1 w2 = (r4, w3)"
    by (cases "is_acceptable R (assemble_trial_iterate R w2 d' 1) d'
                (generate_predicted_reduction_model R d' w2) 1 w2")
  have "r4 = Inr (True, trial) \<and> n = dir_norm d"
  proof (cases r4)
    case (Inl e)
    with assms pos 1 r1 2 r2 bounded 3 4 show ?thesis
      by (auto simp: tr_iteration_def check_unboundedness_def catch_numerical_error_def Let_def
          split: if_splits)
  next
    case (Inr accepted)
    obtain accept t where accepted: "accepted = (accept, t)" by (cases accepted)
    from assms pos 1 r1 2 r2 bounded 3 4 Inr accepted norm show ?thesis
      by (auto simp: tr_iteration_def check_unboundedness_def Let_def split: if_splits)
  qed
  with pos 1 r1 2 r2 bounded 3 4 show ?thesis by blast
qed

lemma tr_loop_returned:
  assumes "tr_loop R s1 w1 = Some result"
  shows "\<forall>k trial n. loop_entry R s0 w0 k = Some (s1, w1) \<and> fst result = Inr (trial, n) \<longrightarrow>
           (\<exists>k' s2 w2 w3 w4 w5 d d'.
              loop_entry R s0 w0 k' = Some (s2, w2)
              \<and> \<not> radius s2 < min_radius s2
              \<and> 0 < radius s2
              \<and> create_current_subproblem R (radius s2) w2 = (Inr (), w3)
              \<and> compute_feasible_direction R w3 = (Inr d, w4)
              \<and> status d \<noteq> UNBOUNDED_PROBLEM
              \<and> rectify_active_set d (radius s2) = Inr d'
              \<and> is_acceptable R (assemble_trial_iterate R w4 d' 1) d'
                   (generate_predicted_reduction_model R d' w4) 1 w4 = (Inr (True, trial), w5)
              \<and> n = dir_norm d)"
  using assms
proof (induction R s1 w1 result rule: tr_loop_induct)
  case (step loop R s1 w1 result)
  show ?case
  proof (intro allI impI)
    fix k trial n
    assume a: "loop_entry R s0 w0 k = Some (s1, w1) \<and> fst result = Inr (trial, n)"
    have go: "\<not> termination_tr s1"
      using step.hyps a by (auto split: if_splits)
    obtain p s2 w2 where it: "tr_iteration R s1 w1 = (p, s2, w2)"
      by (cases "tr_iteration R s1 w1")
    show "\<exists>k' s2 w2 w3 w4 w5 d d'.
              loop_entry R s0 w0 k' = Some (s2, w2)
              \<and> \<not> radius s2 < min_radius s2
              \<and> 0 < radius s2
              \<and> create_current_subproblem R (radius s2) w2 = (Inr (), w3)
              \<and> compute_feasible_direction R w3 = (Inr d, w4)
              \<and> status d \<noteq> UNBOUNDED_PROBLEM
              \<and> rectify_active_set d (radius s2) = Inr d'
              \<and> is_acceptable R (assemble_trial_iterate R w4 d' 1) d'
                   (generate_predicted_reduction_model R d' w4) 1 w4 = (Inr (True, trial), w5)
              \<and> n = dir_norm d"
    proof (cases p)
      case (Finished r)
      with go it step.hyps have "result = (r, s2, w2)" by simp
      with a have "r = Inr (trial, n)" by simp
      with it Finished have "tr_iteration R s1 w1 = (Finished (Inr (trial, n)), s2, w2)"
        by simp
      from tr_iteration_returned [OF this] a go show ?thesis
        unfolding termination_tr_def by blast
    next
      case Retry
      with go it step.hyps have call: "loop R s2 w2 = Some result" by simp
      have "loop_entry R s0 w0 (Suc k) = Some (s2, w2)"
        using a go it Retry by simp
      with step.IH [OF call] a show ?thesis by blast
    qed
  qed
qed

lemma stalled_loop:
  assumes "tr_loop R s w = Some result"
  shows "R = example_strategy \<and> radius s = 10 \<and> tr_decrease_factor s = 1 \<and> min_radius s = 1
         \<longrightarrow> False"
  using assms
proof (induction R s w result rule: tr_loop_induct)
  case (step loop R s w result)
  show ?case
  proof
    assume a: "R = example_strategy \<and> radius s = 10 \<and> tr_decrease_factor s = 1
               \<and> min_radius s = 1"
    obtain r statistics where w: "w = (r, statistics)" by (cases w)
    let ?s = "s\<lparr>number_iterations := number_iterations s + 1, radius := 10\<rparr>"
    have it: "tr_iteration R s w = (Retry, ?s, w)"
      using a by (simp add: tr_iteration_def catch_numerical_error_def example_strategy_def w)
    have "\<not> termination_tr s"
      using a by (simp add: termination_tr_def)
    with step.hyps it have "loop R ?s w = Some result" by simp
    from step.IH [OF this] a show False by simp
  qed
qed

lemma example_loop_entries:
  "loop_entry example_strategy (example_trust_region (1 / 2)) (0, []) (Suc (Suc (Suc (Suc 0)))) =
     Some ((example_trust_region (1 / 2))\<lparr>radius := 5 / 8, number_iterations := 4\<rparr>, (5 / 4, []))"
  by (simp add: example_termination example_iterations)

text \<open>
  Claim C7, as amended. (1) Whatever \<open>compute_acceptable_iterate\<close> returns is an error other
  than a \<open>NumericalError\<close>, or the trial iterate of a pass of the loop in which
  \<open>is_acceptable\<close> accepted it at the full step, with the norm of the direction of that pass.
  (2) Each time the loop evaluates its condition, either the radius is below the least radius,
  and then the call ends with the error "Trust-region radius became too small" in that state,
  or the loop goes through another pass, which fails its assertion when the radius is not
  positive; for a positive least radius the radius is positive in every pass. (3) A pass in
  which \<open>create_current_subproblem\<close>, \<open>compute_feasible_direction\<close> or \<open>is_acceptable\<close>
  raises a \<open>NumericalError\<close> ends with the radius divided by the decrease factor and asks for
  another pass. (4) A pass in which \<open>is_acceptable\<close> accepts the trial iterate ends the call,
  which returns that iterate and the norm of the direction. (5) For a positive least radius
  and a decrease factor above \<open>1\<close> the call terminates.
\<close>

theorem trust_region_outcomes:
  "(\<forall>result. compute_acceptable_iterate R s w = Some result \<longrightarrow>
      (case fst result of
         Inl e \<Rightarrow> e \<noteq> NumericalError
       | Inr (trial, n) \<Rightarrow>
           (\<exists>k s1 w1 w2 w3 w4 d d'.
              loop_entry R (s\<lparr>number_iterations := 0\<rparr>) w k = Some (s1, w1)
              \<and> \<not> radius s1 < min_radius s
              \<and> 0 < radius s1
              \<and> create_current_subproblem R (radius s1) w1 = (Inr (), w2)
              \<and> compute_feasible_direction R w2 = (Inr d, w3)
              \<and> status d \<noteq> UNBOUNDED_PROBLEM
              \<and> rectify_active_set d (radius s1) = Inr d'
              \<and> is_acceptable R (assemble_trial_iterate R w3 d' 1) d'
                   (generate_predicted_reduction_model R d' w3) 1 w3 = (Inr (True, trial), w4)
              \<and> n = dir_norm d)))
   \<and> (\<forall>k s1 w1. loop_entry R (s\<lparr>number_iterations := 0\<rparr>) w k = Some (s1, w1) \<longrightarrow>
        (if radius s1 < min_radius s then
           compute_acceptable_iterate R s w =
             Some (Inl (RuntimeError ''Trust-region radius became too small''), s1, w1)
         else if \<not> 0 < radius s1 then
           compute_acceptable_iterate R s w =
             Some (Inl (AssertionFailed ''0 < this->radius''), s1, w1)
         else
           compute_acceptable_iterate R s w =
             (case tr_iteration R s1 w1 of
                (Finished r, s2, w2) \<Rightarrow> Some (r, s2, w2)
              | (Retry, s2, w2) \<Rightarrow> tr_loop R s2 w2))
        \<and> (0 < min_radius s \<longrightarrow> radius s1 < min_radius s \<or> 0 < radius s1))
   \<and> (\<forall>s1 w1 w2. 0 < radius s1
          \<and> create_current_subproblem R (radius s1) w1 = (Inl NumericalError, w2) \<longrightarrow>
        tr_iteration R s1 w1 =
          (Retry, s1\<lparr>number_iterations := number_iterations s1 + 1,
                     radius := radius s1 / tr_decrease_factor s1\<rparr>, w2))
   \<and> (\<forall>s1 w1 w2 w3. 0 < radius s1
          \<and> create_current_subproblem R (radius s1) w1 = (Inr (), w2)
          \<and> compute_feasible_direction R w2 = (Inl NumericalError, w3) \<longrightarrow>
        tr_iteration R s1 w1 =
          (Retry, s1\<lparr>number_iterations := number_iterations s1 + 1,
                     radius := radius s1 / tr_decrease_factor s1\<rparr>, w3))
   \<and> (\<forall>s1 w1 w2 w3 w4 d d'. 0 < radius s1
          \<and> create_current_subproblem R (radius s1) w1 = (Inr (), w2)
          \<and> compute_feasible_direction R w2 = (Inr d, w3)
          \<and> status d \<noteq> UNBOUNDED_PROBLEM
          \<and> rectify_active_set d (radius s1) = Inr d'
          \<and> is_acceptable R (assemble_trial_iterate R w3 d' 1) d'
               (generate_predicted_reduction_model R d' w3) 1 w3 = (Inl NumericalError, w4) \<longrightarrow>
        tr_iteration R s1 w1 =
          (Retry, s1\<lparr>number_iterations := number_iterations s1 + 1,
                     radius := radius s1 / tr_decrease_factor s1\<rparr>, w4))
   \<and> (\<forall>k s1 w1 w2 w3 w4 d d' t.
          loop_entry R (s\<lparr>number_iterations := 0\<rparr>) w k = Some (s1, w1)
          \<and> \<not> radius s1 < min_radius s
          \<and> 0 < radius s1
          \<and> create_current_subproblem R (radius s1) w1 = (Inr (), w2)
          \<and> compute_feasible_direction R w2 = (Inr d, w3)
          \<and> status d \<noteq> UNBOUNDED_PROBLEM
          \<and> rectify_active_set d (radius s1) = Inr d'
          \<and> is_acceptable R (assemble_trial_iterate R w3 d' 1) d'
               (generate_predicted_reduction_model R d' w3) 1 w3 = (Inr (True, t), w4) \<longrightarrow>
        compute_acceptable_iterate R s w =
          Some (Inr (t, dir_norm d),
                (if dir_norm d \<ge> radius s1 - activity_tolerance s1
                 then s1\<lparr>number_iterations := number_iterations s1 + 1,
                         radius := radius s1 * increase_factor s1\<rparr>
                 else s1\<lparr>number_iterations := number_iterations s1 + 1\<rparr>),
                register_accepted_iterate R t
                  (add_statistics R (s1\<lparr>number_iterations := number_iterations s1 + 1\<rparr>) d' w4)))
   \<and> (0 < min_radius s \<and> 1 < tr_decrease_factor s \<longrightarrow>
        (\<exists>result. compute_acceptable_iterate R s w = Some result))"
proof (intro conjI allI impI)
  fix result
  assume run: "compute_acceptable_iterate R s w = Some result"
  then have loop: "tr_loop R (s\<lparr>number_iterations := 0\<rparr>) w = Some result"
    by (simp add: compute_acceptable_iterate_def)
  show "case fst result of
         Inl e \<Rightarrow> e \<noteq> NumericalError
       | Inr (trial, n) \<Rightarrow>
           (\<exists>k s1 w1 w2 w3 w4 d d'.
              loop_entry R (s\<lparr>number_iterations := 0\<rparr>) w k = Some (s1, w1)
              \<and> \<not> radius s1 < min_radius s
              \<and> 0 < radius s1
              \<and> create_current_subproblem R (radius s1) w1 = (Inr (), w2)
              \<and> compute_feasible_direction R w2 = (Inr d, w3)
              \<and> status d \<noteq> UNBOUNDED_PROBLEM
              \<and> rectify_active_set d (radius s1) = Inr d'
              \<and> is_acceptable R (assemble_trial_iterate R w3 d' 1) d'
                   (generate_predicted_reduction_model R d' w3) 1 w3 = (Inr (True, trial), w4)
              \<and> n = dir_norm d)"
  proof (cases "fst result")
    case (Inl e)
    with tr_loop_outcome [OF loop] show ?thesis by simp
  next
    case (Inr returned)
    obtain trial n where returned: "returned = (trial, n)" by (cases returned)
    have start: "loop_entry R (s\<lparr>number_iterations := 0\<rparr>) w 0
                 = Some (s\<lparr>number_iterations := 0\<rparr>, w)"
      by simp
    from tr_loop_returned [OF loop, of "s\<lparr>number_iterations := 0\<rparr>" w, rule_format,
        of 0 trial n] start Inr returned
    obtain k s1 w1 w2 w3 w4 d d' where
      found: "loop_entry R (s\<lparr>number_iterations := 0\<rparr>) w k = Some (s1, w1)"
        "\<not> radius s1 < min_radius s1"
        "0 < radius s1"
        "create_current_subproblem R (radius s1) w1 = (Inr (), w2)"
        "compute_feasible_direction R w2 = (Inr d, w3)"
        "status d \<noteq> UNBOUNDED_PROBLEM"
        "rectify_active_set d (radius s1) = Inr d'"
        "is_acceptable R (assemble_trial_iterate R w3 d' 1) d'
           (generate_predicted_reduction_model R d' w3) 1 w3 = (Inr (True, trial), w4)"
        "n = dir_norm d"
      by blast
    have "min_radius s1 = min_radius s"
      using loop_entry_constants [OF found(1)] by simp
    with found show ?thesis
      unfolding Inr returned by (simp only: sum.case prod.case) blast
  qed
next
  fix k s1 w1
  assume entry: "loop_entry R (s\<lparr>number_iterations := 0\<rparr>) w k = Some (s1, w1)"
  have same: "min_radius s1 = min_radius s"
    using loop_entry_constants [OF entry] by simp
  have call: "compute_acceptable_iterate R s w = tr_loop R s1 w1"
    unfolding compute_acceptable_iterate_def by (rule loop_entry_tr_loop [OF entry])
  show "if radius s1 < min_radius s then
           compute_acceptable_iterate R s w =
             Some (Inl (RuntimeError ''Trust-region radius became too small''), s1, w1)
         else if \<not> 0 < radius s1 then
           compute_acceptable_iterate R s w =
             Some (Inl (AssertionFailed ''0 < this->radius''), s1, w1)
         else
           compute_acceptable_iterate R s w =
             (case tr_iteration R s1 w1 of
                (Finished r, s2, w2) \<Rightarrow> Some (r, s2, w2)
              | (Retry, s2, w2) \<Rightarrow> tr_loop R s2 w2)"
  proof (cases "radius s1 < min_radius s")
    case True
    then have "termination_tr s1" by (simp add: termination_tr_def same)
    then show ?thesis using True by (simp add: call tr_loop_stops)
  next
    case False
    then have go: "\<not> termination_tr s1" by (simp add: termination_tr_def same)
    show ?thesis
    proof (cases "0 < radius s1")
      case True
      with False go show ?thesis by (simp add: call tr_loop_continues)
    next
      case nonpositive: False
      then have "tr_iteration R s1 w1 = (Finished (Inl (AssertionFailed ''0 < this->radius'')), s1, w1)"
        by (simp add: tr_iteration_def)
      with False nonpositive go show ?thesis by (simp add: call tr_loop_continues)
    qed
  qed
  show "radius s1 < min_radius s \<or> 0 < radius s1" if "0 < min_radius s"
    using that by linarith
next
  fix s1 :: TrustRegionStrategy and w1 w2
  assume "0 < radius s1
              \<and> create_current_subproblem R (radius s1) w1 = (Inl NumericalError, w2)"
  then show "tr_iteration R s1 w1 =
              (Retry, s1\<lparr>number_iterations := number_iterations s1 + 1,
                         radius := radius s1 / tr_decrease_factor s1\<rparr>, w2)"
    by (simp add: tr_iteration_def catch_numerical_error_def)
next
  fix s1 :: TrustRegionStrategy and w1 w2 w3
  assume "0 < radius s1
              \<and> create_current_subproblem R (radius s1) w1 = (Inr (), w2)
              \<and> compute_feasible_direction R w2 = (Inl NumericalError, w3)"
  then show "tr_iteration R s1 w1 =
              (Retry, s1\<lparr>number_iterations := number_iterations s1 + 1,
                         radius := radius s1 / tr_decrease_factor s1\<rparr>, w3)"
    by (simp add: tr_iteration_def catch_numerical_error_def)
next
  fix s1 :: TrustRegionStrategy and w1 w2 w3 w4 d d'
  assume "0 < radius s1
              \<and> create_current_subproblem R (radius s1) w1 = (Inr (), w2)
              \<and> compute_feasible_direction R w2 = (Inr d, w3)
              \<and> status d \<noteq> UNBOUNDED_PROBLEM
              \<and> rectify_active_set d (radius s1) = Inr d'
              \<and> is_acceptable R (assemble_trial_iterate R w3 d' 1) d'
                   (generate_predicted_reduction_model R d' w3) 1 w3 = (Inl NumericalError, w4)"
  then show "tr_iteration R s1 w1 =
              (Retry, s1\<lparr>number_iterations := number_iterations s1 + 1,
                         radius := radius s1 / tr_decrease_factor s1\<rparr>, w4)"
    by (simp add: tr_iteration_def catch_numerical_error_def check_unboundedness_def Let_def)
next
  fix k s1 w1 w2 w3 w4 d d' t
  assume a: "loop_entry R (s\<lparr>number_iterations := 0\<rparr>) w k = Some (s1, w1)
          \<and> \<not> radius s1 < min_radius s
          \<and> 0 < radius s1
          \<and> create_current_subproblem R (radius s1) w1 = (Inr (), w2)
          \<and> compute_feasible_direction R w2 = (Inr d, w3)
          \<and> status d \<noteq> UNBOUNDED_PROBLEM
          \<and> rectify_active_set d (radius s1) = Inr d'
          \<and> is_acceptable R (assemble_trial_iterate R w3 d' 1) d'
               (generate_predicted_reduction_model R d' w3) 1 w3 = (Inr (True, t), w4)"
  then have entry: "loop_entry R (s\<lparr>number_iterations := 0\<rparr>) w k = Some (s1, w1)"
    by blast
  have same: "min_radius s1 = min_radius s"
    using loop_entry_constants [OF entry] by simp
  have call: "compute_acceptable_iterate R s w = tr_loop R s1 w1"
    unfolding compute_acceptable_iterate_def by (rule loop_entry_tr_loop [OF entry])
  have go: "\<not> termination_tr s1"
    using a by (simp add: termination_tr_def same)
  have "tr_iteration R s1 w1 =
           (Finished (Inr (t, dir_norm d)),
            (if dir_norm d \<ge> radius s1 - activity_tolerance s1
             then s1\<lparr>number_iterations := number_iterations s1 + 1,
                     radius := radius s1 * increase_factor s1\<rparr>
             else s1\<lparr>number_iterations := number_iterations s1 + 1\<rparr>),
            register_accepted_iterate R t
              (add_statistics R (s1\<lparr>number_iterations := number_iterations s1 + 1\<rparr>) d' w4))"
    using a by (intro tr_iteration_accepted) blast+
  then show "compute_acceptable_iterate R s w =
          Some (Inr (t, dir_norm d),
                (if dir_norm d \<ge> radius s1 - activity_tolerance s1
                 then s1\<lparr>number_iterations := number_iterations s1 + 1,
                         radius := radius s1 * increase_factor s1\<rparr>
                 else s1\<lparr>number_iterations := number_iterations s1 + 1\<rparr>),
                register_accepted_iterate R t
                  (add_statistics R (s1\<lparr>number_iterations := number_iterations s1 + 1\<rparr>) d' w4))"
    using go by (simp only: call tr_loop_continues [OF go] prod.case pass.case)
next
  assume "0 < min_radius s \<and> 1 < tr_decrease_factor s"
  then show "\<exists>result. compute_acceptable_iterate R s w = Some result"
    unfolding compute_acceptable_iterate_def
    using tr_loop_terminates [of "s\<lparr>number_iterations := 0\<rparr>" R w] by simp
qed

theorem trust_region_outcomes_witness:
  "loop_entry example_strategy (example_trust_region 1) (0, []) 4 =
       Some ((example_trust_region 1)\<lparr>radius := 5 / 8, number_iterations := 4\<rparr>, (5 / 4, []))
   \<and> (5 / 8 :: real) < min_radius (example_trust_region 1)
   \<and> compute_acceptable_iterate example_strategy (example_trust_region 1) (0, []) =
       Some (Inl (RuntimeError ''Trust-region radius became too small''),
             (example_trust_region 1)\<lparr>radius := 5 / 8, number_iterations := 4\<rparr>, (5 / 4, []))
   \<and> create_current_subproblem example_strategy 10 (0, []) = (Inl NumericalError, (0, []))
   \<and> tr_iteration example_strategy (example_trust_region 1) (0, []) =
       (Retry, (example_trust_region 1)\<lparr>number_iterations := 1, radius := 5\<rparr>, (0, []))
   \<and> loop_entry example_strategy (example_trust_region (1 / 2)) (0, []) 4 =
       Some ((example_trust_region (1 / 2))\<lparr>radius := 5 / 8, number_iterations := 4\<rparr>, (5 / 4, []))
   \<and> \<not> (5 / 8 :: real) < min_radius (example_trust_region (1 / 2))
   \<and> create_current_subproblem example_strategy (5 / 8) (5 / 4, []) = (Inr (), (5 / 8, []))
   \<and> compute_feasible_direction example_strategy (5 / 8, [])
       = (Inr (example_step (5 / 8)), (5 / 8, []))
   \<and> is_acceptable example_strategy (5 / 8)
         ((example_step (5 / 8))
            \<lparr>at_upper_bound := [],
             multipliers := \<lparr>lower_bounds = [0], upper_bounds = [0], constraints_multipliers = []\<rparr>\<rparr>)
         () 1 (5 / 8, [])
       = (Inr (True, 5 / 8), (5 / 8, []))
   \<and> compute_acceptable_iterate example_strategy (example_trust_region (1 / 2)) (0, []) =
       Some (Inr (5 / 8, 5 / 8),
             (example_trust_region (1 / 2))\<lparr>radius := 5 / 4, number_iterations := 5\<rparr>,
             (5 / 8, [(''minor'', 5), (''TR radius'', 5 / 8), (''step norm'', 5 / 8)]))"
proof -
  let ?d' = "(example_step (5 / 8))
            \<lparr>at_upper_bound := [],
             multipliers := \<lparr>lower_bounds = [0], upper_bounds = [0], constraints_multipliers = []\<rparr>\<rparr>"
  let ?s = "(example_trust_region (1 / 2))\<lparr>radius := 5 / 8, number_iterations := 4\<rparr>"
  have "(4::nat) = Suc (Suc (Suc (Suc 0)))" by simp
  then have entry: "loop_entry example_strategy (example_trust_region (1 / 2)) (0, []) 4 =
       Some (?s, (5 / 4, []))"
    using example_loop_entries by presburger
  have raised: "create_current_subproblem example_strategy 10 (0, []) = (Inl NumericalError, (0, []))"
    by (simp add: example_strategy_def)
  have 1: "create_current_subproblem example_strategy (radius ?s) (5 / 4, []) = (Inr (), (5 / 8, []))"
    by (simp add: example_strategy_def)
  have 2: "compute_feasible_direction example_strategy (5 / 8, [])
           = (Inr (example_step (5 / 8)), (5 / 8, []))"
    by (simp add: example_strategy_def)
  have 3: "status (example_step (5 / 8)) \<noteq> UNBOUNDED_PROBLEM"
    by (simp add: example_step_def)
  have 4: "rectify_active_set (example_step (5 / 8)) (radius ?s) = Inr ?d'"
    by (simp add: example_rectified)
  have 5: "is_acceptable example_strategy
             (assemble_trial_iterate example_strategy (5 / 8, []) ?d' 1) ?d'
             (generate_predicted_reduction_model example_strategy ?d' (5 / 8, [])) 1 (5 / 8, [])
           = (Inr (True, 5 / 8), (5 / 8, []))"
    by (simp add: example_strategy_def example_step_def)
  have accepts: "is_acceptable example_strategy (5 / 8) ?d' () 1 (5 / 8, [])
            = (Inr (True, 5 / 8), (5 / 8, []))"
    by (simp add: example_strategy_def example_step_def)
  note fails = trust_region_outcomes [of example_strategy "example_trust_region 1" "(0, [])"]
  note stops = fails [THEN conjunct2, THEN conjunct1, rule_format, unfolded example_start,
      OF example_loop_entry, THEN conjunct1]
  note caught = fails [THEN conjunct2, THEN conjunct2, THEN conjunct1, rule_format,
      of "example_trust_region 1" "(0, [])" "(0, [])"]
  note succeeds = trust_region_outcomes
      [of example_strategy "example_trust_region (1 / 2)" "(0, [])"]
  note returned = succeeds [THEN conjunct2, THEN conjunct2, THEN conjunct2, THEN conjunct2,
      THEN conjunct2, THEN conjunct1, rule_format, unfolded example_start,
      of 4 ?s "(5 / 4, [])" "(5 / 8, [])" "example_step (5 / 8)" "(5 / 8, [])" ?d'
         "5 / 8" "(5 / 8, [])"]
  have "compute_acceptable_iterate example_strategy (example_trust_region 1) (0, []) =
       Some (Inl (RuntimeError ''Trust-region radius became too small''),
             (example_trust_region 1)\<lparr>radius := 5 / 8, number_iterations := 4\<rparr>, (5 / 4, []))"
    using stops by (simp add: example_trust_region_def)
  moreover have "tr_iteration example_strategy (example_trust_region 1) (0, []) =
       (Retry, (example_trust_region 1)\<lparr>number_iterations := 1, radius := 5\<rparr>, (0, []))"
    using caught raised by (simp add: example_trust_region_def)
  moreover have "compute_acceptable_iterate example_strategy (example_trust_region (1 / 2)) (0, []) =
       Some (Inr (5 / 8, 5 / 8),
             (example_trust_region (1 / 2))\<lparr>radius := 5 / 4, number_iterations := 5\<rparr>,
             (5 / 8, [(''minor'', 5), (''TR radius'', 5 / 8), (''step norm'', 5 / 8)]))"
    using returned entry 1 2 3 4 5
    by (simp add: example_trust_region_def example_step_def example_strategy_def
        add_statistics_def add_statistic_def)
  ultimately show ?thesis
    using raised example_loop_entry entry 1 2 accepts
    by (simp add: example_trust_region_def)
qed

text \<open>
  Claim C7 as stated fails for the decrease factor \<open>1\<close>, a positive real: the mechanism of the
  example with that factor keeps the radius \<open>10\<close>, building the subproblem raises a numerical
  error in every pass, and the call neither returns an iterate nor raises an error: it does
  not return.
\<close>

theorem unit_decrease_factor_never_returns_counterexample:
  "tr_decrease_factor ((example_trust_region 1)\<lparr>tr_decrease_factor := 1\<rparr>) = 1
   \<and> radius ((example_trust_region 1)\<lparr>tr_decrease_factor := 1\<rparr>) = 10
   \<and> min_radius ((example_trust_region 1)\<lparr>tr_decrease_factor := 1\<rparr>) = 1
   \<and> create_current_subproblem example_strategy 10 (0, []) = (Inl NumericalError, (0, []))
   \<and> tr_iteration example_strategy ((example_trust_region 1)\<lparr>tr_decrease_factor := 1\<rparr>) (0, []) =
       (Retry,
        (example_trust_region 1)\<lparr>tr_decrease_factor := 1, number_iterations := 1\<rparr>, (0, []))
   \<and> compute_acceptable_iterate example_strategy
       ((example_trust_region 1)\<lparr>tr_decrease_factor := 1\<rparr>) (0, []) = None"
proof -
  let ?s = "(example_trust_region 1)\<lparr>tr_decrease_factor := 1\<rparr>"
  have "compute_acceptable_iterate example_strategy ?s (0, []) = None"
  proof (cases "compute_acceptable_iterate example_strategy ?s (0, [])")
    case None
    then show ?thesis .
  next
    case (Some result)
    then have "tr_loop example_strategy (?s\<lparr>number_iterations := 0\<rparr>) (0, []) = Some result"
      by (simp add: compute_acceptable_iterate_def)
    from stalled_loop [OF this] show ?thesis
      by (simp add: example_trust_region_def)
  qed
  then show ?thesis
    by (simp add: example_trust_region_def example_strategy_def tr_iteration_def
        catch_numerical_error_def)
qed

section \<open>Properties of the feasibility restoration\<close>

lemma switch_phase_phase:
  "current_phase (fst (switch_phase C s current_iterate trial_iterate direction)) =
     (if current_phase s = FEASIBILITY_RESTORATION \<and> 0 < objective_multiplier direction
      then OPTIMALITY
      else if current_phase s = OPTIMALITY \<and> objective_multiplier direction = 0
      then FEASIBILITY_RESTORATION
      else current_phase s)"
  by (simp add: switch_phase_def Let_def)

lemma switch_phase_to_restoration:
  assumes "current_phase s = OPTIMALITY" and "objective_multiplier direction = 0"
  shows "switch_phase C s current_iterate trial_iterate direction =
     (s\<lparr>current_phase := FEASIBILITY_RESTORATION,
        phase_2_strategy := fr_notify C current_iterate (phase_2_strategy s),
        phase_1_strategy :=
          fr_notify C
            (compute_infeasibility_measures C s current_iterate (constraint_partition direction))
            (fr_reset C (phase_1_strategy s))\<rparr>,
      compute_infeasibility_measures C s current_iterate (constraint_partition direction),
      (if use_proximal_term s
       then add_proximal_term_to_progress_measures C
              (compute_infeasibility_measures C s current_iterate (constraint_partition direction))
              (compute_infeasibility_measures C s trial_iterate (constraint_partition direction))
       else compute_infeasibility_measures C s trial_iterate (constraint_partition direction)))"
proof -
  have same: "compute_infeasibility_measures C (s\<lparr>current_phase := p, phase_2_strategy := g2,
                 phase_1_strategy := g1\<rparr>) it part
              = compute_infeasibility_measures C s it part" for p g1 g2 it part
    by (cases part) (simp_all add: compute_infeasibility_measures_def)
  show ?thesis
    using assms by (simp add: switch_phase_def Let_def same)
qed

lemma fr_is_acceptable_phase:
  "current_phase (fst (snd (fr_is_acceptable C s statistics current_iterate trial_iterate direction
                              evaluate step_length))) =
     (if is_small_step C direction then current_phase s
      else if current_phase s = FEASIBILITY_RESTORATION \<and> 0 < objective_multiplier direction
      then OPTIMALITY
      else if current_phase s = OPTIMALITY \<and> objective_multiplier direction = 0
      then FEASIBILITY_RESTORATION
      else current_phase s)"
proof -
  define s0 where "s0 = (if fr_subproblem_definition_changed s then
               s\<lparr>fr_subproblem_definition_changed := False,
                  phase_2_strategy := fr_reset C (phase_2_strategy s)\<rparr> else s)"
  define c0 where "c0 = (if fr_subproblem_definition_changed s
                         then fr_compute_progress_measures C current_iterate else current_iterate)"
  have phase0: "current_phase s0 = current_phase s" by (simp add: s0_def)
  have pre: "(if fr_subproblem_definition_changed s then
               (s\<lparr>fr_subproblem_definition_changed := False,
                  phase_2_strategy := fr_reset C (phase_2_strategy s)\<rparr>,
                fr_compute_progress_measures C current_iterate)
             else (s, current_iterate)) = (s0, c0)"
    by (simp add: s0_def c0_def)
  obtain s1 c1 t1 where sw: "switch_phase C s0 c0 trial_iterate direction = (s1, c1, t1)"
    by (cases "switch_phase C s0 c0 trial_iterate direction")
  have phase1: "current_phase s1 =
     (if current_phase s = FEASIBILITY_RESTORATION \<and> 0 < objective_multiplier direction
      then OPTIMALITY
      else if current_phase s = OPTIMALITY \<and> objective_multiplier direction = 0
      then FEASIBILITY_RESTORATION
      else current_phase s)"
    using switch_phase_phase [of C s0 c0 trial_iterate direction] sw phase0 by simp
  show ?thesis
  proof (cases "is_small_step C direction")
    case True
    then show ?thesis
      unfolding fr_is_acceptable_def pre
      by (simp add: Let_def phase0 split: option.splits)
  next
    case False
    then show ?thesis
      unfolding fr_is_acceptable_def pre
      by (auto simp: Let_def sw phase1 [symmetric] split: option.splits prod.splits)
  qed
qed

text \<open>
  Claim C4, as amended. In one call of \<open>is_acceptable\<close> the phase changes only for a direction
  that is not a small step. For such a direction it goes from \<open>OPTIMALITY\<close> to
  \<open>FEASIBILITY_RESTORATION\<close> exactly when the objective multiplier of the direction is \<open>0\<close>, and
  from \<open>FEASIBILITY_RESTORATION\<close> to \<open>OPTIMALITY\<close> exactly when that multiplier is positive. On
  the first transition \<open>switch_phase\<close> notifies the phase-2 strategy of the current iterate as it
  stands, resets the phase-1 strategy, recomputes the infeasibility measures of the current
  iterate, and notifies the phase-1 strategy (after its reset) of the iterate with the recomputed
  measures.
\<close>

theorem phase_switch_when_not_small_step:
  "current_phase (fst (snd (fr_is_acceptable C s statistics current_iterate trial_iterate direction
                              evaluate step_length))) =
     (if is_small_step C direction then current_phase s
      else if current_phase s = FEASIBILITY_RESTORATION \<and> 0 < objective_multiplier direction
      then OPTIMALITY
      else if current_phase s = OPTIMALITY \<and> objective_multiplier direction = 0
      then FEASIBILITY_RESTORATION
      else current_phase s)
   \<and> (current_phase s = OPTIMALITY \<and> objective_multiplier direction = 0 \<longrightarrow>
        switch_phase C s current_iterate trial_iterate direction =
          (s\<lparr>current_phase := FEASIBILITY_RESTORATION,
             phase_2_strategy := fr_notify C current_iterate (phase_2_strategy s),
             phase_1_strategy :=
               fr_notify C
                 (compute_infeasibility_measures C s current_iterate (constraint_partition direction))
                 (fr_reset C (phase_1_strategy s))\<rparr>,
           compute_infeasibility_measures C s current_iterate (constraint_partition direction),
           (if use_proximal_term s
            then add_proximal_term_to_progress_measures C
                   (compute_infeasibility_measures C s current_iterate (constraint_partition direction))
                   (compute_infeasibility_measures C s trial_iterate (constraint_partition direction))
            else compute_infeasibility_measures C s trial_iterate (constraint_partition direction))))"
  using fr_is_acceptable_phase switch_phase_to_restoration by blast

lemma example_measures:
  "compute_infeasibility_measures example_restoration_collaborators example_restoration
     example_iterate (Some example_partition)
   = example_iterate\<lparr>progress := \<lparr>feasibility = 1, objective_measure = 1\<rparr>\<rparr>"
  "compute_infeasibility_measures example_restoration_collaborators example_restoration
     example_trial_iterate (Some example_partition)
   = example_trial_iterate\<lparr>constraints := [0], progress := \<lparr>feasibility = 0, objective_measure = 0\<rparr>\<rparr>"
  by (simp_all add: compute_infeasibility_measures_def example_restoration_collaborators_def
      example_iterate_def example_trial_iterate_def example_partition_def)

theorem phase_switch_when_not_small_step_witness:
  "current_phase example_restoration = OPTIMALITY
   \<and> objective_multiplier example_restoration_direction = 0
   \<and> \<not> is_small_step example_restoration_collaborators example_restoration_direction
   \<and> switch_phase example_restoration_collaborators example_restoration example_iterate
        example_trial_iterate example_restoration_direction =
       (example_restoration\<lparr>current_phase := FEASIBILITY_RESTORATION,
          phase_2_strategy := [5, 1], phase_1_strategy := [1]\<rparr>,
        example_iterate\<lparr>progress := \<lparr>feasibility = 1, objective_measure = 1\<rparr>\<rparr>,
        example_trial_iterate\<lparr>constraints := [0],
          progress := \<lparr>feasibility = 0, objective_measure = 0\<rparr>\<rparr>)
   \<and> current_phase (fst (snd (fr_is_acceptable example_restoration_collaborators
          example_restoration [] example_iterate example_trial_iterate
          example_restoration_direction example_reduction_model 1))) = FEASIBILITY_RESTORATION"
proof -
  have phase: "current_phase example_restoration = OPTIMALITY"
    and proximal: "\<not> use_proximal_term example_restoration"
    and strategies: "phase_1_strategy example_restoration = []"
      "phase_2_strategy example_restoration = [5]"
    by (simp_all add: example_restoration_def)
  have multiplier: "objective_multiplier example_restoration_direction = 0"
    and partition: "constraint_partition example_restoration_direction = Some example_partition"
    and not_small: "\<not> is_small_step example_restoration_collaborators example_restoration_direction"
    by (simp_all add: example_restoration_direction_def example_restoration_collaborators_def)
  have notify: "fr_notify example_restoration_collaborators iterate g
                = g @ [feasibility (progress iterate)]"
    and reset: "fr_reset example_restoration_collaborators g = []" for iterate g
    by (simp_all add: example_restoration_collaborators_def)
  have progress: "feasibility (progress example_iterate) = 1"
    by (simp add: example_iterate_def)
  note claim = phase_switch_when_not_small_step [of example_restoration_collaborators
      example_restoration "[]" example_iterate example_trial_iterate example_restoration_direction
      example_reduction_model 1]
  show ?thesis
    using claim phase multiplier not_small
    by (simp add: partition proximal strategies notify reset progress example_measures)
qed

text \<open>
  Claim C4 as stated fails for a small step: in the optimality phase, a direction of norm \<open>0\<close>
  with the objective multiplier \<open>0\<close> is accepted at once, \<open>switch_phase\<close> is not called and the
  phase stays \<open>OPTIMALITY\<close>.
\<close>

theorem small_step_keeps_phase_counterexample:
  "current_phase example_restoration = OPTIMALITY
   \<and> objective_multiplier example_zero_direction = 0
   \<and> is_small_step example_restoration_collaborators example_zero_direction
   \<and> fr_is_acceptable example_restoration_collaborators example_restoration []
        example_iterate example_iterate example_zero_direction example_reduction_model 1
      = (True, example_restoration, [(''phase'', 2)], example_iterate, example_iterate)
   \<and> current_phase (fst (snd (fr_is_acceptable example_restoration_collaborators
          example_restoration [] example_iterate example_iterate example_zero_direction
          example_reduction_model 1))) \<noteq> FEASIBILITY_RESTORATION"
  by (simp add: fr_is_acceptable_def example_restoration_def example_zero_direction_def
      example_solution_def example_restoration_collaborators_def add_statistic_def)

end
